theory Spec2Isabelle
  imports Complex_Main "HOL-Library.Char_ord" "HOL-Library.List_Lexorder"
    "HOL-Library.Log_Nat" "HOL-Library.Word"
begin

text \<open>
  The bike-share statistics program \<open>bikeshare.py\<close>: \<open>load_data\<close> reads the trip records of
  a city and derives month, day of week and hour from the start time, \<open>load_data_filtered\<close>
  narrows them to a month and a day of the week, and nine functions compute statistics of
  the resulting frame. The functions are modelled on lists of typed records; the operations
  of pandas that they call are modelled as pandas documents them. Of \<open>main\<close>, the part that
  computes and prints the statistics is modelled; the prompts, \<open>display_raw_data\<close> and the
  restart loop read the terminal and are left out.
\<close>

section \<open>Python values\<close>

text \<open>
  Exceptions are values: a call returns \<open>Inl e\<close> when the Python raises \<open>e\<close> and \<open>Inr v\<close> when
  it returns \<open>v\<close>. The constructors carry the names of the Python exception classes; the
  argument is the key or a short form of the message. The program defines no exception
  class of its own: an invalid month or day is the \<open>ValueError\<close> of \<open>load_data_filtered\<close>, an
  unknown city is the \<open>KeyError\<close> of the lookup in \<open>CITY_DATA\<close>, a missing column is the
  \<open>KeyError\<close> of \<open>df[name]\<close>, and \<open>FileNotFoundError\<close> stands for every failure to read a file.
\<close>

datatype error =
  KeyError string
  | ValueError string
  | FileNotFoundError string

type_synonym 'a result = "error + 'a"

definition bind_result :: "'a result \<Rightarrow> ('a \<Rightarrow> 'b result) \<Rightarrow> 'b result" where
  "bind_result r f = (case r of Inl e \<Rightarrow> Inl e | Inr v \<Rightarrow> f v)"

text \<open>
  A Python float is a 64-bit float: NaN, or a number with 53 significant bits, given here by
  its exact value. Infinities do not arise from the columns of this program.
\<close>

datatype pyfloat = NaN | Num rat

text \<open>
  One arithmetic operation on 64-bit floats returns the exact result rounded to 53
  significant bits, to the nearest such number and to the one with an even last bit when
  two are equally near. \<open>log2_floor q\<close> is the exponent \<open>e\<close> with \<open>2^e \<le> q < 2^(e+1)\<close>.
  The program only rounds quotients of whole numbers up to \<open>2^53\<close>, which lie within the
  range of normal 64-bit floats, where this is the rounding of the machine.
\<close>

definition round_half_even :: "rat \<Rightarrow> int" where
  "round_half_even q =
     (let f = \<lfloor>q\<rfloor>; d = q - of_int f
      in if d < 1 / 2 then f else if 1 / 2 < d then f + 1 else if even f then f else f + 1)"

definition log2_floor :: "rat \<Rightarrow> int" where
  "log2_floor q =
     (let (a, b) = quotient_of q; k = bitlen a - bitlen b
      in if power_int 2 k \<le> q then k else k - 1)"

definition round53 :: "rat \<Rightarrow> rat" where
  "round53 q =
     (if q = 0 then 0
      else (let ulp = power_int 2 (log2_floor \<bar>q\<bar> - 52)
            in of_int (round_half_even (q / ulp)) * ulp))"

text \<open>\<open>int(x)\<close> on a float: NaN cannot be converted.\<close>

definition int_of_float :: "int option \<Rightarrow> int result" where
  "int_of_float x =
     (case x of None \<Rightarrow> Inl (ValueError ''cannot convert float NaN to integer'')
      | Some n \<Rightarrow> Inr n)"

subsection \<open>Strings\<close>

text \<open>
  A character is a code point below 256. \<open>str.lower\<close> moves the capital letters of that
  range (A..Z and the accented capitals 192..222 without the multiplication sign 215) up by
  32; \<open>str.strip\<close> removes the white space of that range from both ends.
\<close>

definition lower_char :: "char \<Rightarrow> char" where
  "lower_char c =
     (let n = (of_char c :: nat)
      in if (65 \<le> n \<and> n \<le> 90) \<or> (192 \<le> n \<and> n \<le> 222 \<and> n \<noteq> 215)
         then char_of (n + 32) else c)"

definition lower :: "string \<Rightarrow> string" where
  "lower s = map lower_char s"

definition isspace :: "char \<Rightarrow> bool" where
  "isspace c = ((of_char c :: nat) \<in> {9, 10, 11, 12, 13, 28, 29, 30, 31, 32, 133, 160})"

definition strip :: "string \<Rightarrow> string" where
  "strip s = rev (dropWhile isspace (rev (dropWhile isspace s)))"

text \<open>\<open>xs.index(x)\<close>, with \<open>None\<close> where Python raises because \<open>x\<close> is not in the list.\<close>

fun list_index :: "'a list \<Rightarrow> 'a \<Rightarrow> nat option" where
  "list_index [] x = None"
| "list_index (y # ys) x =
     (if x = y then Some 0 else map_option Suc (list_index ys x))"

section \<open>pandas series\<close>

text \<open>
  A column is the list of its cells in row order. A cell of an optional column is \<open>None\<close>
  when it is blank (NaN); \<open>dropna\<close> keeps the cells that hold a value.
\<close>

definition dropna :: "'a option list \<Rightarrow> 'a list" where
  "dropna cells = List.map_filter id cells"

text \<open>
  \<open>Series.mode()\<close> returns every value whose number of occurrences is the largest one, each
  once, sorted in ascending order; the series is empty when there is no value.
\<close>

definition max_count :: "'a list \<Rightarrow> nat" where
  "max_count xs = foldr max (map (count_list xs) xs) 0"

definition mode :: "'a::linorder list \<Rightarrow> 'a list" where
  "mode xs = sort (remdups (filter (\<lambda>x. count_list xs x = max_count xs) xs))"

text \<open>
  \<open>s[0]\<close> on the result of \<open>mode\<close>, whose rows are numbered from 0: the label 0 is missing
  when the series is empty, and the lookup raises \<open>KeyError\<close>.
\<close>

definition first_item :: "'a list \<Rightarrow> 'a result" where
  "first_item xs = (case xs of [] \<Rightarrow> Inl (KeyError ''0'') | x # _ \<Rightarrow> Inr x)"

text \<open>
  \<open>Series.value_counts()\<close> lists each value with its number of occurrences, the largest count
  first; the values are taken in order of first appearance and the sort by count is stable,
  so values with equal counts stay in order of first appearance.
\<close>

fun first_seen :: "'a list \<Rightarrow> 'a list" where
  "first_seen [] = []"
| "first_seen (x # xs) = x # filter (\<lambda>y. y \<noteq> x) (first_seen xs)"

definition value_counts :: "'a list \<Rightarrow> ('a \<times> nat) list" where
  "value_counts xs =
     sort_key (\<lambda>p. - int (snd p)) (map (\<lambda>v. (v, count_list xs v)) (first_seen xs))"

text \<open>\<open>Series.min()\<close> and \<open>Series.max()\<close> skip blank cells and give NaN when nothing is left.\<close>

definition series_min :: "'a::linorder list \<Rightarrow> 'a option" where
  "series_min xs = (case xs of [] \<Rightarrow> None | x # ys \<Rightarrow> Some (fold min ys x))"

definition series_max :: "'a::linorder list \<Rightarrow> 'a option" where
  "series_max xs = (case xs of [] \<Rightarrow> None | x # ys \<Rightarrow> Some (fold max ys x))"

text \<open>
  A column of whole numbers is held as signed 64-bit integers. \<open>Series.sum()\<close> adds them as
  such, so the sum wraps around at \<open>2^63\<close>; the sum of no cells is 0.

  \<open>Series.mean()\<close> of no cells is NaN. Otherwise pandas turns the cells into 64-bit floats,
  adds them, and divides by their number. When the sizes of the cells add up to at most
  \<open>2^53\<close> (and there are at most \<open>2^53\<close> cells), every cell and every partial sum is a whole
  number that a float holds exactly, in whatever order the library adds, so the result is the
  exact sum divided by the number of cells, rounded once. Beyond that the result depends on
  the order of the additions inside the library and is taken from outside: \<open>big_mean\<close>.
\<close>

definition exact_sum :: "64 word list \<Rightarrow> bool" where
  "exact_sum xs \<longleftrightarrow> (\<Sum>x\<leftarrow>xs. \<bar>sint x\<bar>) \<le> 2 ^ 53 \<and> int (length xs) \<le> 2 ^ 53"

definition series_mean :: "(64 word list \<Rightarrow> pyfloat) \<Rightarrow> 64 word list \<Rightarrow> pyfloat" where
  "series_mean big_mean xs =
     (if xs = [] then NaN
      else if exact_sum xs
      then Num (round53 (of_int (\<Sum>x\<leftarrow>xs. sint x) / of_nat (length xs)))
      else big_mean xs)"

section \<open>Trip records and data frames\<close>

record timestamp =
  ts_year :: int
  ts_month :: int
  ts_day :: int
  ts_hour :: int
  ts_minute :: int
  ts_second :: int

text \<open>
  The columns of the city files that the program reads. \<open>Start Time\<close> is text in the file
  and a timestamp after \<open>load_data\<close>. A trip duration is a whole number of seconds, held as
  a signed 64-bit integer, as pandas holds a column of whole numbers; a file with fractional
  durations, which pandas holds as floats, is outside this model. \<open>Gender\<close> and \<open>Birth Year\<close>
  cells may be blank; a birth year is a whole number. The other cells always hold a value.
\<close>

record 't source_fields =
  Start_Time :: 't
  Trip_Duration :: "64 word"
  Start_Station :: string
  End_Station :: string
  User_Type :: string
  Gender :: "string option"
  Birth_Year :: "int option"

type_synonym csv_row = "string source_fields"

record trip = "timestamp source_fields" +
  month :: int
  day_of_week :: string
  hour :: int
  Trip :: "string option"

record csv_file =
  csv_columns :: "string list"
  csv_rows :: "csv_row list"

text \<open>
  A data frame: the names of its columns, in order, and its rows. A cell of a column that
  the frame does not have is never read: \<open>df[name]\<close> raises \<open>KeyError\<close> for it.
\<close>

record dataframe =
  columns :: "string list"
  rows :: "trip list"

definition getitem :: "dataframe \<Rightarrow> string \<Rightarrow> (trip \<Rightarrow> 'a) \<Rightarrow> 'a list result" where
  "getitem df name cell =
     (if name \<in> set (columns df) then Inr (map cell (rows df)) else Inl (KeyError name))"

text \<open>
  \<open>df[name] = values\<close> replaces the column, or appends it after the last one, in the frame
  object itself; \<open>store\<close> writes one cell.
\<close>

definition add_column :: "string \<Rightarrow> string list \<Rightarrow> string list" where
  "add_column name cols = (if name \<in> set cols then cols else cols @ [name])"

definition setitem ::
  "dataframe \<Rightarrow> string \<Rightarrow> 'a list \<Rightarrow> ('a \<Rightarrow> trip \<Rightarrow> trip) \<Rightarrow> dataframe" where
  "setitem df name vals store =
     df\<lparr>columns := add_column name (columns df),
        rows := map (\<lambda>(v, r). store v r) (zip vals (rows df))\<rparr>"

subsection \<open>Calendar fields of a timestamp\<close>

definition days_from_civil :: "int \<Rightarrow> int \<Rightarrow> int \<Rightarrow> int" where
  "days_from_civil y m d =
     (let y' = (if m \<le> 2 then y - 1 else y);
          era = y' div 400;
          yoe = y' - era * 400;
          doy = (153 * (if 2 < m then m - 3 else m + 9) + 2) div 5 + d - 1;
          doe = yoe * 365 + yoe div 4 - yoe div 100 + doy
      in era * 146097 + doe - 719468)"

definition day_names :: "string list" where
  "day_names =
     [''Monday'', ''Tuesday'', ''Wednesday'', ''Thursday'', ''Friday'', ''Saturday'',
      ''Sunday'']"

definition day_name :: "timestamp \<Rightarrow> string" where
  "day_name t =
     day_names ! nat ((days_from_civil (ts_year t) (ts_month t) (ts_day t) + 3) mod 7)"

section \<open>Loading and filtering\<close>

text \<open>
  What the program takes from outside: the city files (\<open>None\<close> for a file that cannot be
  read); the conversion of \<open>pd.to_datetime\<close>, which settles on a way of reading from the
  whole column and then reads each cell (\<open>None\<close> for a cell that it cannot read, which makes
  the call raise); and the mean that pandas returns for a column too large to be added
  exactly in 64-bit floats. A blank start time, which pandas reads as the missing time
  \<open>NaT\<close>, is outside this model: every start time of a loaded frame is a time.
\<close>

record environment =
  read_csv :: "string \<Rightarrow> csv_file option"
  to_datetime :: "string list \<Rightarrow> string \<Rightarrow> timestamp option"
  float_mean :: "64 word list \<Rightarrow> pyfloat"

definition CITY_DATA :: "(string \<times> string) list" where
  "CITY_DATA =
     [(''chicago'', ''chicago.csv''),
      (''new york city'', ''new_york_city.csv''),
      (''washington'', ''washington.csv'')]"

definition derive :: "csv_row \<Rightarrow> timestamp \<Rightarrow> trip" where
  "derive r t =
     \<lparr>Start_Time = t, Trip_Duration = Trip_Duration r, Start_Station = Start_Station r,
      End_Station = End_Station r, User_Type = User_Type r, Gender = Gender r,
      Birth_Year = Birth_Year r, month = ts_month t, day_of_week = day_name t,
      hour = ts_hour t, Trip = None\<rparr>"

definition load_data :: "environment \<Rightarrow> string \<Rightarrow> dataframe result" where
  "load_data env city =
     (case map_of CITY_DATA (lower city) of
        None \<Rightarrow> Inl (KeyError (lower city))
      | Some file \<Rightarrow>
          (case read_csv env file of
             None \<Rightarrow> Inl (FileNotFoundError file)
           | Some csv \<Rightarrow>
               if ''Start Time'' \<notin> set (csv_columns csv) then Inl (KeyError ''Start Time'')
               else
                 (case those (map (to_datetime env (map Start_Time (csv_rows csv)))
                                (map Start_Time (csv_rows csv))) of
                    None \<Rightarrow> Inl (ValueError ''Start Time'')
                  | Some ts \<Rightarrow>
                      Inr \<lparr>columns =
                             add_column ''hour''
                               (add_column ''day_of_week''
                                 (add_column ''month'' (csv_columns csv))),
                           rows = map (\<lambda>(r, t). derive r t) (zip (csv_rows csv) ts)\<rparr>)))"

definition months :: "string list" where
  "months = [''january'', ''february'', ''march'', ''april'', ''may'', ''june'']"

definition days :: "string list" where
  "days =
     [''monday'', ''tuesday'', ''wednesday'', ''thursday'', ''friday'', ''saturday'',
      ''sunday'']"

definition index :: "'a list \<Rightarrow> 'a \<Rightarrow> nat result" where
  "index xs x =
     (case list_index xs x of None \<Rightarrow> Inl (ValueError ''not in list'') | Some i \<Rightarrow> Inr i)"

text \<open>\<open>df[mask]\<close> for a column of truth values, one for each row.\<close>

definition mask_rows :: "dataframe \<Rightarrow> bool list \<Rightarrow> dataframe" where
  "mask_rows df keep = df\<lparr>rows := map snd (filter fst (zip keep (rows df)))\<rparr>"

text \<open>
  The two filter blocks of \<open>load_data_filtered\<close>, on the frame that \<open>load_data\<close> returned.
  An argument is \<open>None\<close> when it is left out; \<open>None\<close> and the empty string count as false in
  the test \<open>if month and ...\<close>.
\<close>

definition filter_month :: "dataframe \<Rightarrow> string option \<Rightarrow> dataframe result" where
  "filter_month df month_arg =
     (case month_arg of
        None \<Rightarrow> Inr df
      | Some month_name \<Rightarrow>
          if month_name \<noteq> [] \<and> lower month_name \<noteq> ''all'' then
            (let m = lower (strip month_name) in
             if m \<notin> set months then Inl (ValueError ''Invalid month'')
             else
               bind_result (index months m) (\<lambda>i.
                 let month_number = int i + 1 in
                 bind_result (getitem df ''month'' month) (\<lambda>col.
                   Inr (mask_rows df (map (\<lambda>v. v = month_number) col)))))
          else Inr df)"

definition filter_day :: "dataframe \<Rightarrow> string option \<Rightarrow> dataframe result" where
  "filter_day df day_arg =
     (case day_arg of
        None \<Rightarrow> Inr df
      | Some day \<Rightarrow>
          if day \<noteq> [] \<and> lower day \<noteq> ''all'' then
            (let d = lower (strip day) in
             if d \<notin> set days then Inl (ValueError ''Invalid day'')
             else
               bind_result (getitem df ''day_of_week'' day_of_week) (\<lambda>col.
                 Inr (mask_rows df (map (\<lambda>v. lower v = d) col))))
          else Inr df)"

definition apply_filters ::
  "dataframe \<Rightarrow> string option \<Rightarrow> string option \<Rightarrow> dataframe result" where
  "apply_filters df month_arg day_arg =
     bind_result (filter_month df month_arg) (\<lambda>df'. filter_day df' day_arg)"

definition load_data_filtered ::
  "environment \<Rightarrow> string \<Rightarrow> string option \<Rightarrow> string option \<Rightarrow> dataframe result" where
  "load_data_filtered env city month_arg day_arg =
     bind_result (load_data env city) (\<lambda>df. apply_filters df month_arg day_arg)"

section \<open>Statistics\<close>

text \<open>
  A call on a frame gives the value returned or the exception raised, and the frame as the
  call leaves it: the argument is a reference to a frame object that the callee can change.
\<close>

type_synonym 'a call = "'a result \<times> dataframe"

definition most_common_hour :: "dataframe \<Rightarrow> int call" where
  "most_common_hour df =
     (bind_result (getitem df ''hour'' hour) (\<lambda>s. first_item (mode s)), df)"

definition user_types_count :: "dataframe \<Rightarrow> (string \<times> nat) list call" where
  "user_types_count df =
     (bind_result (getitem df ''User Type'' User_Type) (\<lambda>s. Inr (value_counts s)), df)"

definition gender_count :: "dataframe \<Rightarrow> (string \<times> nat) list call" where
  "gender_count df =
     (bind_result (getitem df ''Gender'' Gender) (\<lambda>s. Inr (value_counts (dropna s))), df)"

definition birth_year_stats :: "dataframe \<Rightarrow> (int \<times> int \<times> int) call" where
  "birth_year_stats df =
     (bind_result (getitem df ''Birth Year'' Birth_Year) (\<lambda>s.
        bind_result (int_of_float (series_min (dropna s))) (\<lambda>earliest_year.
          bind_result (int_of_float (series_max (dropna s))) (\<lambda>most_recent_year.
            bind_result (first_item (mode (dropna s))) (\<lambda>most_common_year.
              Inr (earliest_year, most_recent_year, most_common_year))))), df)"

definition most_common_month :: "dataframe \<Rightarrow> int call" where
  "most_common_month df =
     (bind_result (getitem df ''month'' month) (\<lambda>s. first_item (mode s)), df)"

definition most_common_day :: "dataframe \<Rightarrow> string call" where
  "most_common_day df =
     (bind_result (getitem df ''day_of_week'' day_of_week) (\<lambda>s. first_item (mode s)), df)"

definition total_travel_time :: "dataframe \<Rightarrow> int call" where
  "total_travel_time df =
     (bind_result (getitem df ''Trip Duration'' Trip_Duration) (\<lambda>s.
        Inr (sint (sum_list s))), df)"

definition average_travel_time :: "environment \<Rightarrow> dataframe \<Rightarrow> pyfloat call" where
  "average_travel_time env df =
     (bind_result (getitem df ''Trip Duration'' Trip_Duration) (\<lambda>s.
        Inr (series_mean (float_mean env) s)), df)"

definition trip_strings :: "dataframe \<Rightarrow> string list result" where
  "trip_strings df =
     bind_result (getitem df ''Start Station'' Start_Station) (\<lambda>a.
       bind_result (getitem df ''End Station'' End_Station) (\<lambda>b.
         Inr (map (\<lambda>(x, y). x @ '' to '' @ y) (zip a b))))"

definition most_common_stations :: "dataframe \<Rightarrow> (string \<times> string \<times> string) call" where
  "most_common_stations df =
     (case bind_result (getitem df ''Start Station'' Start_Station)
             (\<lambda>s. first_item (mode s)) of
        Inl e \<Rightarrow> (Inl e, df)
      | Inr common_start_station \<Rightarrow>
     (case bind_result (getitem df ''End Station'' End_Station)
             (\<lambda>s. first_item (mode s)) of
        Inl e \<Rightarrow> (Inl e, df)
      | Inr common_end_station \<Rightarrow>
     (case trip_strings df of
        Inl e \<Rightarrow> (Inl e, df)
      | Inr trips \<Rightarrow>
         (let df' = setitem df ''Trip'' trips (\<lambda>v r. r\<lparr>Trip := Some v\<rparr>) in
          (case bind_result (getitem df' ''Trip'' Trip)
                  (\<lambda>s. first_item (mode (dropna s))) of
             Inl e \<Rightarrow> (Inl e, df')
           | Inr common_trip \<Rightarrow>
               (Inr (common_start_station, common_end_station, common_trip), df'))))))"

subsection \<open>The statistics part of \<open>main\<close>\<close>

text \<open>
  What \<open>main\<close> prints after the frame is loaded, one value for each line. A run is the
  lines printed so far, the exception that ended it (if any) and the frame.
\<close>

datatype line =
  Month_line int
  | Day_line string
  | Hour_line int
  | Start_station_line string
  | End_station_line string
  | Trip_line string
  | Total_line int
  | Average_line pyfloat
  | User_types_line "(string \<times> nat) list"
  | Gender_line "(string \<times> nat) list"
  | Earliest_line int
  | Recent_line int
  | Common_year_line int

type_synonym run = "line list \<times> error option \<times> dataframe"

definition then_print :: "(dataframe \<Rightarrow> 'a call) \<Rightarrow> ('a \<Rightarrow> line list) \<Rightarrow> run \<Rightarrow> run" where
  "then_print f lines_of st =
     (case st of
        (out, Some e, df) \<Rightarrow> (out, Some e, df)
      | (out, None, df) \<Rightarrow>
          (case f df of
             (Inl e, df') \<Rightarrow> (out, Some e, df')
           | (Inr v, df') \<Rightarrow> (out @ lines_of v, None, df')))"

definition common_statistics :: "environment \<Rightarrow> dataframe \<Rightarrow> run" where
  "common_statistics env df =
     then_print user_types_count (\<lambda>u. [User_types_line u])
       (then_print (average_travel_time env) (\<lambda>a. [Average_line a])
         (then_print total_travel_time (\<lambda>t. [Total_line t])
           (then_print most_common_stations
              (\<lambda>(s, e, t). [Start_station_line s, End_station_line e, Trip_line t])
             (then_print most_common_hour (\<lambda>h. [Hour_line h])
               (then_print most_common_day (\<lambda>d. [Day_line d])
                 (then_print most_common_month (\<lambda>m. [Month_line m])
                   ([], None, df)))))))"

definition demographic_statistics :: "run \<Rightarrow> run" where
  "demographic_statistics st =
     then_print birth_year_stats
        (\<lambda>(earliest, recent, common).
           [Earliest_line earliest, Recent_line recent, Common_year_line common])
       (then_print gender_count (\<lambda>g. [Gender_line g]) st)"

definition main_statistics :: "environment \<Rightarrow> string \<Rightarrow> dataframe \<Rightarrow> run" where
  "main_statistics env city df =
     (let st = common_statistics env df in
      if city \<in> set [''chicago'', ''new york city''] then demographic_statistics st
      else st)"

section \<open>Specification vocabulary\<close>

text \<open>
  A value of highest occurrence count in a column, and the two ways of choosing among several
  such values: the smallest one, and the one met first in row order.
\<close>

definition highest_count :: "'a \<Rightarrow> 'a list \<Rightarrow> bool" where
  "highest_count v xs = (v \<in> set xs \<and> (\<forall>y\<in>set xs. count_list xs y \<le> count_list xs v))"

definition smallest_mode :: "'a::linorder \<Rightarrow> 'a list \<Rightarrow> bool" where
  "smallest_mode v xs = (highest_count v xs \<and> (\<forall>y. highest_count y xs \<longrightarrow> v \<le> y))"

definition first_mode :: "'a list \<Rightarrow> 'a option" where
  "first_mode xs = find (\<lambda>x. highest_count x xs) xs"

text \<open>The string that \<open>most_common_stations\<close> builds for one record.\<close>

definition trip_string :: "trip \<Rightarrow> string" where
  "trip_string r = Start_Station r @ '' to '' @ End_Station r"

text \<open>The frame with the column \<open>Trip\<close> written: every other cell and column as before.\<close>

definition with_trip :: "dataframe \<Rightarrow> dataframe" where
  "with_trip df =
     df\<lparr>columns := add_column ''Trip'' (columns df),
        rows := map (\<lambda>r. r\<lparr>Trip := Some (trip_string r)\<rparr>) (rows df)\<rparr>"



text \<open>An argument of \<open>load_data_filtered\<close> that sets no filter: left out, empty, or "all".\<close>

definition no_filter :: "string option \<Rightarrow> bool" where
  "no_filter a = (case a of None \<Rightarrow> True | Some s \<Rightarrow> s = [] \<or> lower s = ''all'')"

subsection \<open>Example frames\<close>

definition on_day :: "int \<Rightarrow> int \<Rightarrow> int \<Rightarrow> timestamp" where
  "on_day mo d h =
     \<lparr>ts_year = 2017, ts_month = mo, ts_day = d, ts_hour = h, ts_minute = 0, ts_second = 0\<rparr>"

definition ride ::
  "timestamp \<Rightarrow> string \<Rightarrow> string \<Rightarrow> 64 word \<Rightarrow> string \<Rightarrow> string option \<Rightarrow> int option \<Rightarrow>
   trip" where
  "ride t a b dur u g y =
     derive \<lparr>Start_Time = ''2017'', Trip_Duration = dur, Start_Station = a, End_Station = b,
             User_Type = u, Gender = g, Birth_Year = y\<rparr> t"

text \<open>Columns of a frame loaded from a file without and with the demographic columns.\<close>

definition plain_columns :: "string list" where
  "plain_columns =
     [''Start Time'', ''End Time'', ''Trip Duration'', ''Start Station'', ''End Station'',
      ''User Type'', ''month'', ''day_of_week'', ''hour'']"

definition full_columns :: "string list" where
  "full_columns =
     [''Start Time'', ''End Time'', ''Trip Duration'', ''Start Station'', ''End Station'',
      ''User Type'', ''Gender'', ''Birth Year'', ''month'', ''day_of_week'', ''hour'']"

text \<open>
  Two rides: Tuesday 7 February at 5 o'clock, then Monday 2 January at 3 o'clock. Every
  value of every column occurs once.
\<close>

definition tie_view :: dataframe where
  "tie_view =
     \<lparr>columns = full_columns,
      rows =
        [ride (on_day 2 7 5) ''Q'' ''R'' 60 ''Subscriber'' (Some ''Male'') (Some 1990),
         ride (on_day 1 2 3) ''P'' ''Q'' 120 ''Customer'' (Some ''Female'') (Some 1985)]\<rparr>"


text \<open>Three rides of 60, 120 and 180 seconds.\<close>

definition three_view :: dataframe where
  "three_view =
     \<lparr>columns = plain_columns,
      rows =
        [ride (on_day 1 2 9) ''A'' ''X'' 60 ''Subscriber'' None None,
         ride (on_day 1 2 9) ''A'' ''X'' 120 ''Subscriber'' None None,
         ride (on_day 1 3 9) ''A'' ''Y'' 180 ''Customer'' None None]\<rparr>"



text \<open>
  An environment with one city file, for Washington, holding four rides (Monday 2 January,
  Tuesday 3 January, Tuesday 27 June and Friday 30 June 2017), and a parser that reads the
  start times of that file.
\<close>

definition example_csv :: csv_file where
  "example_csv =
     \<lparr>csv_columns =
        [''Start Time'', ''End Time'', ''Trip Duration'', ''Start Station'', ''End Station'',
         ''User Type''],
      csv_rows =
        [\<lparr>Start_Time = ''2017-01-02 09:07:57'', Trip_Duration = 489, Start_Station = ''A'',
          End_Station = ''X'', User_Type = ''Subscriber'', Gender = None, Birth_Year = None\<rparr>,
         \<lparr>Start_Time = ''2017-01-03 10:00:00'', Trip_Duration = 300, Start_Station = ''A'',
          End_Station = ''Y'', User_Type = ''Subscriber'', Gender = None, Birth_Year = None\<rparr>,
         \<lparr>Start_Time = ''2017-06-27 08:30:00'', Trip_Duration = 250, Start_Station = ''B'',
          End_Station = ''X'', User_Type = ''Customer'', Gender = None, Birth_Year = None\<rparr>,
         \<lparr>Start_Time = ''2017-06-30 23:10:00'', Trip_Duration = 402, Start_Station = ''B'',
          End_Station = ''Y'', User_Type = ''Customer'', Gender = None, Birth_Year = None\<rparr>]\<rparr>"

definition example_times :: "(string \<times> timestamp) list" where
  "example_times =
     [(''2017-01-02 09:07:57'',
       \<lparr>ts_year = 2017, ts_month = 1, ts_day = 2, ts_hour = 9, ts_minute = 7,
        ts_second = 57\<rparr>),
      (''2017-01-03 10:00:00'',
       \<lparr>ts_year = 2017, ts_month = 1, ts_day = 3, ts_hour = 10, ts_minute = 0,
        ts_second = 0\<rparr>),
      (''2017-06-27 08:30:00'',
       \<lparr>ts_year = 2017, ts_month = 6, ts_day = 27, ts_hour = 8, ts_minute = 30,
        ts_second = 0\<rparr>),
      (''2017-06-30 23:10:00'',
       \<lparr>ts_year = 2017, ts_month = 6, ts_day = 30, ts_hour = 23, ts_minute = 10,
        ts_second = 0\<rparr>)]"

definition example_env :: environment where
  "example_env =
     \<lparr>read_csv = (\<lambda>file. if file = ''washington.csv'' then Some example_csv else None),
      to_datetime = (\<lambda>column. map_of example_times),
      float_mean =
        (\<lambda>xs. Num (round53 (of_int (\<Sum>x\<leftarrow>xs. sint x) / of_nat (length xs))))\<rparr>"

text \<open>The same file under the name of Chicago's file: a Chicago file without \<open>Gender\<close>.\<close>

definition renamed_env :: environment where
  "renamed_env =
     example_env\<lparr>read_csv :=
       (\<lambda>file. if file = ''chicago.csv'' then Some example_csv else None)\<rparr>"

text \<open>The frame that \<open>load_data\<close> builds from that file.\<close>

definition example_frame :: dataframe where
  "example_frame =
     \<lparr>columns = plain_columns,
      rows =
        [ride (snd (example_times ! 0)) ''A'' ''X'' 489 ''Subscriber'' None None,
         ride (snd (example_times ! 1)) ''A'' ''Y'' 300 ''Subscriber'' None None,
         ride (snd (example_times ! 2)) ''B'' ''X'' 250 ''Customer'' None None,
         ride (snd (example_times ! 3)) ''B'' ''Y'' 402 ''Customer'' None None]\<rparr>"

text \<open>The lines that only the demographic part of \<open>main\<close> prints.\<close>

definition demographic_line :: "line \<Rightarrow> bool" where
  "demographic_line l =
     (case l of
        Gender_line _ \<Rightarrow> True
      | Earliest_line _ \<Rightarrow> True
      | Recent_line _ \<Rightarrow> True
      | Common_year_line _ \<Rightarrow> True
      | _ \<Rightarrow> False)"

section \<open>Properties\<close>

subsection \<open>Series\<close>

lemma bind_result_simps [simp]:
  "bind_result (Inl e) f = Inl e"
  "bind_result (Inr v) f = f v"
  by (simp_all add: bind_result_def)

lemma count_le_max_count_aux:
  "x \<in> set ys \<Longrightarrow> count_list xs x \<le> foldr max (map (count_list xs) ys) 0"
  by (induction ys) auto

lemma count_le_max_count: "x \<in> set xs \<Longrightarrow> count_list xs x \<le> max_count xs"
  unfolding max_count_def by (rule count_le_max_count_aux)

lemma max_count_attained_aux:
  "ys \<noteq> [] \<Longrightarrow> \<exists>x\<in>set ys. count_list xs x = foldr max (map (count_list xs) ys) 0"
proof (induction ys)
  case Nil
  then show ?case by simp
next
  case (Cons y ys)
  show ?case
  proof (cases "ys = []")
    case True
    then show ?thesis by simp
  next
    case False
    with Cons.IH obtain x where x: "x \<in> set ys"
      "count_list xs x = foldr max (map (count_list xs) ys) 0" by blast
    define M where "M = foldr max (map (count_list xs) ys) 0"
    have step: "foldr max (map (count_list xs) (y # ys)) 0 = max (count_list xs y) M"
      by (simp add: M_def)
    show ?thesis
    proof (cases "count_list xs y \<le> M")
      case True
      then have "max (count_list xs y) M = count_list xs x" using x by (simp add: M_def)
      with x(1) show ?thesis unfolding step by auto
    next
      case False
      then have "max (count_list xs y) M = count_list xs y" by simp
      then show ?thesis unfolding step by auto
    qed
  qed
qed

lemma max_count_attained: "xs \<noteq> [] \<Longrightarrow> \<exists>x\<in>set xs. count_list xs x = max_count xs"
  unfolding max_count_def by (rule max_count_attained_aux)

lemma highest_count_iff: "highest_count v xs \<longleftrightarrow> v \<in> set xs \<and> count_list xs v = max_count xs"
proof
  assume h: "highest_count v xs"
  then have v: "v \<in> set xs" by (simp add: highest_count_def)
  then have "xs \<noteq> []" by auto
  then obtain x where x: "x \<in> set xs" "count_list xs x = max_count xs"
    using max_count_attained by blast
  with h have "max_count xs \<le> count_list xs v" by (auto simp: highest_count_def)
  with count_le_max_count [OF v] show "v \<in> set xs \<and> count_list xs v = max_count xs"
    using v by simp
next
  assume "v \<in> set xs \<and> count_list xs v = max_count xs"
  then show "highest_count v xs"
    by (auto simp: highest_count_def count_le_max_count)
qed

lemma set_mode: "set (mode xs) = {v. highest_count v xs}"
  by (auto simp: mode_def highest_count_iff)

lemma sorted_mode: "sorted (mode xs)"
  by (simp add: mode_def)

lemma mode_Nil [simp]: "mode [] = []"
  by (simp add: mode_def)

lemma mode_nonempty: "xs \<noteq> [] \<Longrightarrow> mode xs \<noteq> []"
proof -
  assume "xs \<noteq> []"
  then obtain x where "x \<in> set xs" "count_list xs x = max_count xs"
    using max_count_attained by blast
  then have "x \<in> set (mode xs)" by (simp add: set_mode highest_count_iff)
  then show ?thesis by auto
qed

lemma first_item_mode: "first_item (mode xs) = Inr v \<longleftrightarrow> smallest_mode v xs"
proof
  assume "first_item (mode xs) = Inr v"
  then obtain rest where m: "mode xs = v # rest"
    by (auto simp: first_item_def split: list.splits)
  have "v \<in> set (mode xs)" by (simp add: m)
  then have hv: "highest_count v xs" by (simp add: set_mode)
  have "\<forall>y\<in>set (mode xs). v \<le> y"
    using sorted_mode [of xs] by (auto simp: m)
  then show "smallest_mode v xs" using hv by (auto simp: smallest_mode_def set_mode)
next
  assume s: "smallest_mode v xs"
  then have "v \<in> set (mode xs)" by (simp add: smallest_mode_def set_mode)
  then obtain w rest where m: "mode xs = w # rest" by (cases "mode xs") auto
  have "w \<in> set (mode xs)" by (simp add: m)
  then have "highest_count w xs" by (simp add: set_mode)
  with s have "v \<le> w" by (simp add: smallest_mode_def)
  moreover have "w \<le> v" using sorted_mode [of xs] \<open>v \<in> set (mode xs)\<close> by (auto simp: m)
  ultimately show "first_item (mode xs) = Inr v" by (simp add: first_item_def m)
qed

lemma first_item_mode_total: "xs \<noteq> [] \<Longrightarrow> \<exists>v. first_item (mode xs) = Inr v"
  using mode_nonempty [of xs] by (cases "mode xs") (auto simp: first_item_def)

lemma first_item_mode_Nil: "first_item (mode []) = Inl (KeyError ''0'')"
  by (simp add: first_item_def)

lemma find_filter_neq: "\<not> Q x \<Longrightarrow> find Q (filter (\<lambda>y. y \<noteq> x) ys) = find Q ys"
  by (induction ys) auto

lemma find_first_seen: "find Q (first_seen xs) = find Q xs"
  by (induction xs) (auto simp: find_filter_neq)

lemma set_first_seen [simp]: "set (first_seen xs) = set xs"
  by (induction xs) auto

lemma find_map_comp: "find P (map g ys) = map_option g (find (\<lambda>y. P (g y)) ys)"
  by (induction ys) auto

lemma sort_key_head:
  "sort_key f xs = a # rest \<Longrightarrow> find (\<lambda>x. \<forall>y\<in>set xs. f x \<le> f y) xs = Some a"
proof (induction xs arbitrary: a rest)
  case Nil
  then show ?case by simp
next
  case (Cons x xs)
  show ?case
  proof (cases "sort_key f xs")
    case Nil
    then have "xs = []" by (metis length_sort list.size(3) length_0_conv)
    with Cons.prems show ?thesis by simp
  next
    case (Cons b rest')
    from Cons.IH [OF Cons] have fb: "find (\<lambda>z. \<forall>y\<in>set xs. f z \<le> f y) xs = Some b" .
    then have b: "b \<in> set xs" "\<forall>y\<in>set xs. f b \<le> f y"
      by (auto simp: find_Some_iff)
    show ?thesis
    proof (cases "f x \<le> f b")
      case True
      with Cons.prems Cons have "a = x" by simp
      moreover have "\<forall>y\<in>set xs. f x \<le> f y" using True b(2) by auto
      ultimately show ?thesis by simp
    next
      case False
      with Cons.prems Cons have "a = b" by simp
      have nx: "\<not> (\<forall>y\<in>set (x # xs). f x \<le> f y)" using False b(1) by auto
      have "find (\<lambda>z. \<forall>y\<in>set (x # xs). f z \<le> f y) xs = find (\<lambda>z. \<forall>y\<in>set xs. f z \<le> f y) xs"
      proof (rule find_cong [OF refl])
        fix z assume "z \<in> set xs"
        show "(\<forall>y\<in>set (x # xs). f z \<le> f y) = (\<forall>y\<in>set xs. f z \<le> f y)"
          using False b by (auto intro: order_trans)
      qed
      then have "find (\<lambda>z. \<forall>y\<in>set (x # xs). f z \<le> f y) (x # xs) = Some b"
        using fb nx by (simp only: find.simps if_False)
      with \<open>a = b\<close> show ?thesis by simp
    qed
  qed
qed

lemma value_counts_head:
  assumes "value_counts xs = (v, c) # rest"
  shows "first_mode xs = Some v \<and> c = count_list xs v"
proof -
  let ?g = "\<lambda>v. (v, count_list xs v)"
  let ?f = "\<lambda>p :: 'a \<times> nat. - int (snd p)"
  from assms have "sort_key ?f (map ?g (first_seen xs)) = (v, c) # rest"
    by (simp add: value_counts_def)
  from sort_key_head [OF this]
  have "map_option ?g (find (\<lambda>z. \<forall>y\<in>set xs. count_list xs y \<le> count_list xs z) (first_seen xs)) = Some (v, c)"
    by (simp add: find_map_comp)
  then have f: "find (\<lambda>z. \<forall>y\<in>set xs. count_list xs y \<le> count_list xs z) xs = Some v"
    and c: "c = count_list xs v"
    by (auto simp: find_first_seen)
  have "find (\<lambda>z. \<forall>y\<in>set xs. count_list xs y \<le> count_list xs z) xs
        = find (\<lambda>x. highest_count x xs) xs"
  proof (rule find_cong [OF refl])
    fix z assume "z \<in> set xs"
    then show "(\<forall>y\<in>set xs. count_list xs y \<le> count_list xs z) = highest_count z xs"
      by (simp add: highest_count_def)
  qed
  with f c show ?thesis by (simp add: first_mode_def)
qed

lemma first_mode_highest: "first_mode xs = Some v \<Longrightarrow> highest_count v xs"
  by (auto simp: first_mode_def find_Some_iff)

lemma value_counts_Nil_iff: "value_counts xs = [] \<longleftrightarrow> xs = []"
  by (cases xs) (auto simp: value_counts_def dest: arg_cong [where f = length])

lemma bind_getitem:
  "bind_result (getitem df name cell) f =
     (if name \<in> set (columns df) then f (map cell (rows df)) else Inl (KeyError name))"
  by (simp add: getitem_def)

lemma dropna_Some [simp]: "dropna (map (\<lambda>x. Some (f x)) xs) = map f xs"
  by (induction xs) (simp_all add: dropna_def List.map_filter_simps)

lemma most_common_month_iff:
  "fst (most_common_month df) = Inr v \<longleftrightarrow>
     ''month'' \<in> set (columns df) \<and> smallest_mode v (map month (rows df))"
  by (simp add: most_common_month_def bind_getitem first_item_mode)

lemma most_common_day_iff:
  "fst (most_common_day df) = Inr v \<longleftrightarrow>
     ''day_of_week'' \<in> set (columns df) \<and> smallest_mode v (map day_of_week (rows df))"
  by (simp add: most_common_day_def bind_getitem first_item_mode)

lemma most_common_hour_iff:
  "fst (most_common_hour df) = Inr v \<longleftrightarrow>
     ''hour'' \<in> set (columns df) \<and> smallest_mode v (map hour (rows df))"
  by (simp add: most_common_hour_def bind_getitem first_item_mode)

lemma trip_strings_eq:
  "''Start Station'' \<in> set (columns df) \<Longrightarrow> ''End Station'' \<in> set (columns df) \<Longrightarrow>
   trip_strings df = Inr (map trip_string (rows df))"
  by (simp add: trip_strings_def bind_getitem zip_map_map zip_same_conv_map trip_string_def
      cong: map_cong)

lemma setitem_trip:
  "setitem df ''Trip'' (map trip_string (rows df)) (\<lambda>v r. r\<lparr>Trip := Some v\<rparr>) = with_trip df"
  by (simp add: setitem_def with_trip_def zip_map1 zip_same_conv_map)

lemma Trip_with_trip:
  "''Trip'' \<in> set (columns (with_trip df))"
  "map Trip (rows (with_trip df)) = map (\<lambda>r. Some (trip_string r)) (rows df)"
  by (simp_all add: with_trip_def add_column_def comp_def)

lemma most_common_stations_eq:
  assumes "''Start Station'' \<in> set (columns df)" "''End Station'' \<in> set (columns df)"
    and "rows df \<noteq> []"
  shows "\<exists>s e t. most_common_stations df = (Inr (s, e, t), with_trip df) \<and>
           smallest_mode s (map Start_Station (rows df)) \<and>
           smallest_mode e (map End_Station (rows df)) \<and>
           smallest_mode t (map trip_string (rows df))"
proof -
  from assms(3) obtain s where s: "first_item (mode (map Start_Station (rows df))) = Inr s"
    using first_item_mode_total [of "map Start_Station (rows df)"] by auto
  from assms(3) obtain e where e: "first_item (mode (map End_Station (rows df))) = Inr e"
    using first_item_mode_total [of "map End_Station (rows df)"] by auto
  from assms(3) obtain t where t: "first_item (mode (map trip_string (rows df))) = Inr t"
    using first_item_mode_total [of "map trip_string (rows df)"] by auto
  have "most_common_stations df = (Inr (s, e, t), with_trip df)"
    using assms(1,2) s e t
    by (simp add: most_common_stations_def bind_getitem trip_strings_eq setitem_trip
        Trip_with_trip Let_def)
  with s e t show ?thesis by (auto simp: first_item_mode)
qed

lemma most_common_stations_fail:
  assumes "\<not> (''Start Station'' \<in> set (columns df) \<and> ''End Station'' \<in> set (columns df) \<and>
    rows df \<noteq> [])"
  shows "\<exists>e. most_common_stations df = (Inl e, df)"
proof (cases "''Start Station'' \<in> set (columns df)")
  case False
  then show ?thesis by (simp add: most_common_stations_def bind_getitem)
next
  case ss: True
  show ?thesis
  proof (cases "rows df = []")
    case True
    then show ?thesis using ss
      by (simp add: most_common_stations_def bind_getitem first_item_def)
  next
    case False
    with ss assms have es: "''End Station'' \<notin> set (columns df)" by simp
    from False obtain s where "first_item (mode (map Start_Station (rows df))) = Inr s"
      using first_item_mode_total [of "map Start_Station (rows df)"] by auto
    then show ?thesis using ss es
      by (simp add: most_common_stations_def bind_getitem)
  qed
qed

lemma most_common_stations_Inr:
  assumes "fst (most_common_stations df) = Inr (s, e, t)"
  shows "''Start Station'' \<in> set (columns df) \<and> ''End Station'' \<in> set (columns df) \<and>
         rows df \<noteq> [] \<and> snd (most_common_stations df) = with_trip df \<and>
         smallest_mode s (map Start_Station (rows df)) \<and>
         smallest_mode e (map End_Station (rows df)) \<and>
         smallest_mode t (map trip_string (rows df))"
proof -
  have ok: "''Start Station'' \<in> set (columns df) \<and> ''End Station'' \<in> set (columns df) \<and>
    rows df \<noteq> []"
  proof (rule ccontr)
    assume "\<not> ?thesis"
    from most_common_stations_fail [OF this] assms show False by auto
  qed
  then obtain s' e' t' where *: "most_common_stations df = (Inr (s', e', t'), with_trip df)"
    "smallest_mode s' (map Start_Station (rows df))"
    "smallest_mode e' (map End_Station (rows df))"
    "smallest_mode t' (map trip_string (rows df))"
    using most_common_stations_eq [of df] by blast
  with assms have "s' = s" "e' = e" "t' = t" by simp_all
  with * ok show ?thesis by simp
qed

lemma birth_year_stats_mode:
  "fst (birth_year_stats df) = Inr (a, b, c) \<Longrightarrow>
   smallest_mode c (dropna (map Birth_Year (rows df)))"
  by (auto simp: birth_year_stats_def bind_getitem bind_result_def first_item_mode
      getitem_def split: if_splits sum.splits)

lemma user_types_count_head:
  "fst (user_types_count df) = Inr ((u, n) # rest) \<Longrightarrow>
   first_mode (map User_Type (rows df)) = Some u \<and> n = count_list (map User_Type (rows df)) u"
  by (auto simp: user_types_count_def bind_getitem dest: value_counts_head split: if_splits)

subsection \<open>Most common values\<close>

lemma monday_tuesday: "''Monday'' < ''Tuesday''"
  by simp

lemma most_common_day_monday:
  assumes c: "''day_of_week'' \<in> set (columns df)"
    and s: "set (map day_of_week (rows df)) = {''Monday'', ''Tuesday''}"
    and n: "count_list (map day_of_week (rows df)) ''Monday'' =
            count_list (map day_of_week (rows df)) ''Tuesday''"
  shows "fst (most_common_day df) = Inr ''Monday''"
proof -
  define ds where "ds = map day_of_week (rows df)"
  define a where "a = ''Monday''"
  define b where "b = ''Tuesday''"
  have ab: "a < b" unfolding a_def b_def by (rule monday_tuesday)
  have s': "set ds = {a, b}" and n': "count_list ds a = count_list ds b"
    using s n by (simp_all only: ds_def a_def b_def)
  have "highest_count a ds"
    unfolding highest_count_def using s' n' by auto
  moreover have "\<forall>y. highest_count y ds \<longrightarrow> a \<le> y"
    unfolding highest_count_def using s' ab by auto
  ultimately have "smallest_mode a ds" by (simp add: smallest_mode_def)
  then have "smallest_mode ''Monday'' (map day_of_week (rows df))"
    by (simp only: ds_def a_def)
  with c show ?thesis by (simp only: most_common_day_iff simp_thms)
qed

lemma user_types_count_total:
  "''User Type'' \<in> set (columns df) \<Longrightarrow> rows df \<noteq> [] \<Longrightarrow>
   \<exists>u n rest. fst (user_types_count df) = Inr ((u, n) # rest)"
proof -
  assume c: "''User Type'' \<in> set (columns df)" and r: "rows df \<noteq> []"
  then have "value_counts (map User_Type (rows df)) \<noteq> []"
    by (simp add: value_counts_Nil_iff)
  then obtain p rest where "value_counts (map User_Type (rows df)) = p # rest"
    by (cases "value_counts (map User_Type (rows df))") auto
  with c show ?thesis by (cases p) (simp add: user_types_count_def bind_getitem)
qed

text \<open>
  C1 (as the code has it). Each of \<open>most_common_month\<close>, \<open>most_common_day\<close>,
  \<open>most_common_hour\<close>, the three components of \<open>most_common_stations\<close> and the third
  component of \<open>birth_year_stats\<close> is a value with the highest number of occurrences in its
  column, and among several such values it is the smallest one (numbers by size, strings in
  lexicographic order), whatever their order in the view. The first entry of
  \<open>user_types_count\<close> is the value with the highest count that is met first in row order.
  With only Mondays and Tuesdays, as many of one as of the other, \<open>most_common_day\<close> returns
  Monday in either order. On a view with at least one record the functions return a value.
\<close>

theorem most_common_values:
  "(fst (most_common_month df) = Inr m \<longrightarrow> smallest_mode m (map month (rows df))) \<and>
   (fst (most_common_day df) = Inr d \<longrightarrow> smallest_mode d (map day_of_week (rows df))) \<and>
   (fst (most_common_hour df) = Inr h \<longrightarrow> smallest_mode h (map hour (rows df))) \<and>
   (fst (most_common_stations df) = Inr (s, e, t) \<longrightarrow>
      smallest_mode s (map Start_Station (rows df)) \<and>
      smallest_mode e (map End_Station (rows df)) \<and>
      smallest_mode t (map trip_string (rows df))) \<and>
   (fst (birth_year_stats df) = Inr (y0, y1, y) \<longrightarrow>
      smallest_mode y (dropna (map Birth_Year (rows df)))) \<and>
   (fst (user_types_count df) = Inr ((u, n) # rest) \<longrightarrow>
      highest_count u (map User_Type (rows df)) \<and>
      first_mode (map User_Type (rows df)) = Some u) \<and>
   (''day_of_week'' \<in> set (columns df) \<and>
    set (map day_of_week (rows df)) = {''Monday'', ''Tuesday''} \<and>
    count_list (map day_of_week (rows df)) ''Monday'' =
      count_list (map day_of_week (rows df)) ''Tuesday'' \<longrightarrow>
      fst (most_common_day df) = Inr ''Monday'') \<and>
   (rows df \<noteq> [] \<and>
    set [''month'', ''day_of_week'', ''hour'', ''Start Station'', ''End Station'',
         ''User Type''] \<subseteq> set (columns df) \<longrightarrow>
      (\<exists>m'. fst (most_common_month df) = Inr m') \<and>
      (\<exists>d'. fst (most_common_day df) = Inr d') \<and>
      (\<exists>h'. fst (most_common_hour df) = Inr h') \<and>
      (\<exists>r. fst (most_common_stations df) = Inr r) \<and>
      (\<exists>u' n' rest'. fst (user_types_count df) = Inr ((u', n') # rest')))"
proof (intro conjI impI)
  show "smallest_mode m (map month (rows df))" if "fst (most_common_month df) = Inr m"
    using that by (simp add: most_common_month_iff)
  show "smallest_mode d (map day_of_week (rows df))" if "fst (most_common_day df) = Inr d"
    using that by (simp add: most_common_day_iff)
  show "smallest_mode h (map hour (rows df))" if "fst (most_common_hour df) = Inr h"
    using that by (simp add: most_common_hour_iff)
  show "smallest_mode s (map Start_Station (rows df))"
    if "fst (most_common_stations df) = Inr (s, e, t)"
    using most_common_stations_Inr [OF that] by simp
  show "smallest_mode e (map End_Station (rows df))"
    if "fst (most_common_stations df) = Inr (s, e, t)"
    using most_common_stations_Inr [OF that] by simp
  show "smallest_mode t (map trip_string (rows df))"
    if "fst (most_common_stations df) = Inr (s, e, t)"
    using most_common_stations_Inr [OF that] by simp
  show "smallest_mode y (dropna (map Birth_Year (rows df)))"
    if "fst (birth_year_stats df) = Inr (y0, y1, y)"
    using that by (rule birth_year_stats_mode)
  show "highest_count u (map User_Type (rows df))"
    if "fst (user_types_count df) = Inr ((u, n) # rest)"
    using user_types_count_head [OF that] by (simp add: first_mode_highest)
  show "first_mode (map User_Type (rows df)) = Some u"
    if "fst (user_types_count df) = Inr ((u, n) # rest)"
    using user_types_count_head [OF that] by simp
  show "fst (most_common_day df) = Inr ''Monday''"
    if "''day_of_week'' \<in> set (columns df) \<and>
        set (map day_of_week (rows df)) = {''Monday'', ''Tuesday''} \<and>
        count_list (map day_of_week (rows df)) ''Monday'' =
          count_list (map day_of_week (rows df)) ''Tuesday''"
    using that by (intro most_common_day_monday) simp_all
next
  assume a: "rows df \<noteq> [] \<and>
    set [''month'', ''day_of_week'', ''hour'', ''Start Station'', ''End Station'',
         ''User Type''] \<subseteq> set (columns df)"
  then have r: "rows df \<noteq> []" by simp
  show "\<exists>m'. fst (most_common_month df) = Inr m'"
    using a first_item_mode_total [of "map month (rows df)"]
    by (simp add: most_common_month_def bind_getitem)
  show "\<exists>d'. fst (most_common_day df) = Inr d'"
    using a first_item_mode_total [of "map day_of_week (rows df)"]
    by (simp add: most_common_day_def bind_getitem)
  show "\<exists>h'. fst (most_common_hour df) = Inr h'"
    using a first_item_mode_total [of "map hour (rows df)"]
    by (simp add: most_common_hour_def bind_getitem)
  show "\<exists>r. fst (most_common_stations df) = Inr r"
    using a most_common_stations_eq [of df] by auto
  show "\<exists>u' n' rest'. fst (user_types_count df) = Inr ((u', n') # rest')"
    using a by (intro user_types_count_total) simp_all
qed

lemma tie_view_values:
  "fst (most_common_month tie_view) = Inr 1"
  "fst (most_common_day tie_view) = Inr ''Monday''"
  "fst (most_common_hour tie_view) = Inr 3"
  "fst (most_common_stations tie_view) = Inr (''P'', ''Q'', ''P to Q'')"
  "fst (birth_year_stats tie_view) = Inr (1985, 1990, 1985)"
  "fst (user_types_count tie_view) = Inr [(''Subscriber'', 1), (''Customer'', 1)]"
  by code_simp+

lemma tie_view_columns:
  "map month (rows tie_view) = [2, 1]"
  "map day_of_week (rows tie_view) = [''Tuesday'', ''Monday'']"
  "map hour (rows tie_view) = [5, 3]"
  "map User_Type (rows tie_view) = [''Subscriber'', ''Customer'']"
  by code_simp+

lemma tie_view_days:
  "''day_of_week'' \<in> set (columns tie_view) \<and>
   set (map day_of_week (rows tie_view)) = {''Monday'', ''Tuesday''} \<and>
   count_list (map day_of_week (rows tie_view)) ''Monday'' =
     count_list (map day_of_week (rows tie_view)) ''Tuesday''"
  by (intro conjI; code_simp)

lemma tie_view_loaded:
  "rows tie_view \<noteq> [] \<and>
   set [''month'', ''day_of_week'', ''hour'', ''Start Station'', ''End Station'',
        ''User Type''] \<subseteq> set (columns tie_view)"
  by (intro conjI; code_simp)

text \<open>
  The theorem at \<open>tie_view\<close>, whose Tuesday ride comes before its Monday ride.
\<close>

theorem most_common_values_witness:
  "map month (rows tie_view) = [2, 1] \<and>
   fst (most_common_month tie_view) = Inr 1 \<and>
   smallest_mode 1 (map month (rows tie_view)) \<and>
   map day_of_week (rows tie_view) = [''Tuesday'', ''Monday''] \<and>
   fst (most_common_day tie_view) = Inr ''Monday'' \<and>
   smallest_mode ''Monday'' (map day_of_week (rows tie_view)) \<and>
   map hour (rows tie_view) = [5, 3] \<and>
   fst (most_common_hour tie_view) = Inr 3 \<and>
   smallest_mode 3 (map hour (rows tie_view)) \<and>
   fst (most_common_stations tie_view) = Inr (''P'', ''Q'', ''P to Q'') \<and>
   smallest_mode ''P'' (map Start_Station (rows tie_view)) \<and>
   smallest_mode ''Q'' (map End_Station (rows tie_view)) \<and>
   smallest_mode ''P to Q'' (map trip_string (rows tie_view)) \<and>
   fst (birth_year_stats tie_view) = Inr (1985, 1990, 1985) \<and>
   smallest_mode 1985 (dropna (map Birth_Year (rows tie_view))) \<and>
   map User_Type (rows tie_view) = [''Subscriber'', ''Customer''] \<and>
   fst (user_types_count tie_view) = Inr [(''Subscriber'', 1), (''Customer'', 1)] \<and>
   highest_count ''Subscriber'' (map User_Type (rows tie_view)) \<and>
   first_mode (map User_Type (rows tie_view)) = Some ''Subscriber'' \<and>
   set (map day_of_week (rows tie_view)) = {''Monday'', ''Tuesday''} \<and>
   count_list (map day_of_week (rows tie_view)) ''Monday'' =
     count_list (map day_of_week (rows tie_view)) ''Tuesday'' \<and>
   rows tie_view \<noteq> [] \<and>
   set [''month'', ''day_of_week'', ''hour'', ''Start Station'', ''End Station'',
        ''User Type''] \<subseteq> set (columns tie_view)"
  using most_common_values [of tie_view 1 "''Monday''" 3 "''P''" "''Q''" "''P to Q''"
      1985 1990 1985 "''Subscriber''" 1 "[(''Customer'', 1)]"]
    tie_view_values tie_view_columns tie_view_days tie_view_loaded
  by blast

text \<open>
  C1 as stated fails: in \<open>tie_view\<close> Tuesday and hour 5 are met first and occur as often as
  Monday and hour 3, and the functions return Monday and 3.
\<close>

theorem most_common_not_first_seen:
  "map day_of_week (rows tie_view) = [''Tuesday'', ''Monday''] \<and>
   fst (most_common_day tie_view) = Inr ''Monday'' \<and>
   first_mode (map day_of_week (rows tie_view)) = Some ''Tuesday'' \<and>
   map hour (rows tie_view) = [5, 3] \<and>
   fst (most_common_hour tie_view) = Inr 3 \<and>
   first_mode (map hour (rows tie_view)) = Some 5"
  by (intro conjI; code_simp)

subsection \<open>Travel times\<close>



lemma round_half_even_of_int [simp]: "round_half_even (of_int k) = k"
  by (simp add: round_half_even_def)


















subsection \<open>Effects on the frame\<close>

text \<open>
  C3 does not hold of the code: \<open>most_common_stations\<close> assigns the column \<open>Trip\<close> in the
  frame it is given. From the view of three rides A to X, A to X, A to Y, whose columns are
  the plain ones and whose records hold no trip, it returns the stations and the trip, and
  leaves a frame with the further column \<open>Trip\<close> and the trip strings in its records.
\<close>

theorem most_common_stations_adds_column:
  "columns three_view = plain_columns \<and>
   map Trip (rows three_view) = [None, None, None] \<and>
   fst (most_common_stations three_view) = Inr (''A'', ''X'', ''A to X'') \<and>
   columns (snd (most_common_stations three_view)) = plain_columns @ [''Trip''] \<and>
   map Trip (rows (snd (most_common_stations three_view))) =
     [Some ''A to X'', Some ''A to X'', Some ''A to Y''] \<and>
   snd (most_common_stations three_view) \<noteq> three_view"
  by (intro conjI; code_simp)

subsection \<open>Filters\<close>

lemma isspace_lower_char: "isspace c \<Longrightarrow> lower_char c = c"
  by (auto simp: isspace_def lower_char_def Let_def)

lemma strip_id: "s \<noteq> [] \<Longrightarrow> \<not> isspace (hd s) \<Longrightarrow> \<not> isspace (last s) \<Longrightarrow> strip s = s"
proof -
  assume s: "s \<noteq> []" and h: "\<not> isspace (hd s)" and l: "\<not> isspace (last s)"
  from s h have 1: "dropWhile isspace s = s" by (cases s) auto
  from s l have "dropWhile isspace (rev s) = rev s" by (cases "rev s") (auto simp: hd_rev)
  with 1 show ?thesis by (simp add: strip_def)
qed

lemma not_space_a_l: "\<not> isspace CHR ''a''" "\<not> isspace CHR ''l''"
  by code_simp+

lemma lower_all_strip: "lower m = ''all'' \<Longrightarrow> strip m = m"
proof -
  assume a: "lower m = ''all''"
  then obtain x y z where m: "m = [x, y, z]"
    by (auto simp: lower_def map_eq_Cons_conv)
  with a have x: "lower_char x = CHR ''a''" and z: "lower_char z = CHR ''l''"
    by (simp_all add: lower_def)
  have "\<not> isspace x" using x isspace_lower_char [of x] not_space_a_l by auto
  moreover have "\<not> isspace z" using z isspace_lower_char [of z] not_space_a_l by auto
  ultimately show ?thesis using m by (intro strip_id) simp_all
qed

lemma strip_Nil [simp]: "strip [] = []"
  by (simp add: strip_def)

lemma lower_Nil [simp]: "lower [] = []"
  by (simp add: lower_def)

lemma all_not_a_name: "''all'' \<notin> set months" "''all'' \<notin> set days" "[] \<notin> set months"
  "[] \<notin> set days"
  by code_simp+

text \<open>An argument whose trimmed, lower-case form is not "all" is itself not "all".\<close>

lemma not_all_unstripped: "lower (strip m) \<noteq> ''all'' \<Longrightarrow> lower m \<noteq> ''all''"
  using lower_all_strip [of m] by auto

lemma list_index_Some_iff: "(\<exists>i. list_index xs x = Some i) \<longleftrightarrow> x \<in> set xs"
  by (induction xs) auto

lemma list_index_nth: "list_index xs x = Some i \<Longrightarrow> i < length xs \<and> xs ! i = x"
  by (induction xs arbitrary: i) (auto split: if_splits)

lemma mask_rows_map:
  "mask_rows df (map (\<lambda>r. p (cell r)) (rows df)) = df\<lparr>rows := filter (\<lambda>r. p (cell r)) (rows df)\<rparr>"
proof -
  have "map snd (filter fst (zip (map f xs) xs)) = filter f xs" for f :: "trip \<Rightarrow> bool" and xs
    by (induction xs) auto
  then show ?thesis by (simp add: mask_rows_def)
qed

lemma filter_month_none: "no_filter a \<Longrightarrow> filter_month df a = Inr df"
  by (auto simp: no_filter_def filter_month_def split: option.splits)

lemma filter_day_none: "no_filter a \<Longrightarrow> filter_day df a = Inr df"
  by (auto simp: no_filter_def filter_day_def split: option.splits)

lemma filter_month_invalid:
  "m \<noteq> [] \<Longrightarrow> lower m \<noteq> ''all'' \<Longrightarrow> lower (strip m) \<notin> set months \<Longrightarrow>
   filter_month df (Some m) = Inl (ValueError ''Invalid month'')"
  by (simp add: filter_month_def)

lemma filter_day_invalid:
  "w \<noteq> [] \<Longrightarrow> lower w \<noteq> ''all'' \<Longrightarrow> lower (strip w) \<notin> set days \<Longrightarrow>
   filter_day df (Some w) = Inl (ValueError ''Invalid day'')"
  by (simp add: filter_day_def)

lemma valid_month_present:
  assumes "lower (strip m) \<in> set months"
  shows "m \<noteq> [] \<and> lower m \<noteq> ''all''"
proof
  show "m \<noteq> []" using assms all_not_a_name(3) by auto
  show "lower m \<noteq> ''all''"
  proof
    assume "lower m = ''all''"
    with lower_all_strip [of m] assms all_not_a_name(1) show False by simp
  qed
qed

lemma valid_day_present:
  assumes "lower (strip w) \<in> set days"
  shows "w \<noteq> [] \<and> lower w \<noteq> ''all''"
proof
  show "w \<noteq> []" using assms all_not_a_name(4) by auto
  show "lower w \<noteq> ''all''"
  proof
    assume "lower w = ''all''"
    with lower_all_strip [of w] assms all_not_a_name(2) show False by simp
  qed
qed

lemma filter_month_valid:
  assumes "list_index months (lower (strip m)) = Some i"
  shows "filter_month df (Some m) =
     (if ''month'' \<in> set (columns df)
      then Inr (df\<lparr>rows := filter (\<lambda>r. month r = int i + 1) (rows df)\<rparr>)
      else Inl (KeyError ''month''))"
proof -
  from assms have mem: "lower (strip m) \<in> set months"
    using list_index_Some_iff [of months "lower (strip m)"] by blast
  from valid_month_present [OF mem] mem assms show ?thesis
    using mask_rows_map [of df "\<lambda>v. v = int i + 1" month]
    by (simp add: filter_month_def index_def bind_getitem comp_def)
qed

lemma filter_day_valid:
  assumes "lower (strip w) \<in> set days"
  shows "filter_day df (Some w) =
     (if ''day_of_week'' \<in> set (columns df)
      then Inr (df\<lparr>rows := filter (\<lambda>r. lower (day_of_week r) = lower (strip w)) (rows df)\<rparr>)
      else Inl (KeyError ''day_of_week''))"
  using valid_day_present [OF assms] assms
    mask_rows_map [of df "\<lambda>v. lower v = lower (strip w)" day_of_week]
  by (simp add: filter_day_def bind_getitem comp_def)

lemma filter_month_outcome:
  "''month'' \<in> set (columns df) \<Longrightarrow>
   (\<exists>v. filter_month df a = Inr v) \<or> filter_month df a = Inl (ValueError ''Invalid month'')"
proof (cases "no_filter a")
  case True
  then show ?thesis by (simp add: filter_month_none)
next
  case False
  assume c: "''month'' \<in> set (columns df)"
  from False obtain m where a: "a = Some m" and m: "m \<noteq> []" "lower m \<noteq> ''all''"
    by (cases a) (auto simp: no_filter_def)
  show ?thesis
  proof (cases "lower (strip m) \<in> set months")
    case True
    then obtain i where "list_index months (lower (strip m)) = Some i"
      using list_index_Some_iff [of months "lower (strip m)"] by blast
    from filter_month_valid [OF this, of df] c a show ?thesis by simp
  next
    case False
    with m a show ?thesis by (simp add: filter_month_invalid)
  qed
qed

lemma load_data_filtered_eq:
  "load_data env city = Inr df \<Longrightarrow>
   load_data_filtered env city a b = apply_filters df a b"
  by (simp add: load_data_filtered_def)

text \<open>
  C4 (as the code has it). A month argument that is not the empty string and whose trimmed,
  lower-case form is neither one of the six names january..june nor "all" makes the filter
  raise \<open>ValueError\<close> ("Invalid month"); so does a day argument of that kind with the seven
  day names ("Invalid day"), once the month block has passed, and in any case the call
  raises a \<open>ValueError\<close>. The empty string sets no filter and raises nothing.
  \<open>load_data_filtered\<close> applies these filters to the frame that \<open>load_data\<close> returns.
\<close>

theorem invalid_filter_values:
  "(m \<noteq> [] \<and> lower (strip m) \<notin> set months \<and> lower (strip m) \<noteq> ''all'' \<longrightarrow>
      apply_filters df (Some m) day_arg = Inl (ValueError ''Invalid month'')) \<and>
   (filter_month df month_arg = Inr df' \<and>
    w \<noteq> [] \<and> lower (strip w) \<notin> set days \<and> lower (strip w) \<noteq> ''all'' \<longrightarrow>
      apply_filters df month_arg (Some w) = Inl (ValueError ''Invalid day'')) \<and>
   (''month'' \<in> set (columns df) \<and>
    w \<noteq> [] \<and> lower (strip w) \<notin> set days \<and> lower (strip w) \<noteq> ''all'' \<longrightarrow>
      (\<exists>msg. apply_filters df month_arg (Some w) = Inl (ValueError msg))) \<and>
   apply_filters df (Some []) (Some []) = Inr df \<and>
   (load_data env city = Inr df \<longrightarrow>
      load_data_filtered env city month_arg day_arg = apply_filters df month_arg day_arg)"
proof (intro conjI impI)
  show "apply_filters df (Some m) day_arg = Inl (ValueError ''Invalid month'')"
    if "m \<noteq> [] \<and> lower (strip m) \<notin> set months \<and> lower (strip m) \<noteq> ''all''"
    using that not_all_unstripped [of m]
    by (simp add: apply_filters_def filter_month_invalid)
  show "apply_filters df month_arg (Some w) = Inl (ValueError ''Invalid day'')"
    if "filter_month df month_arg = Inr df' \<and>
        w \<noteq> [] \<and> lower (strip w) \<notin> set days \<and> lower (strip w) \<noteq> ''all''"
    using that not_all_unstripped [of w]
    by (simp add: apply_filters_def filter_day_invalid)
  show "\<exists>msg. apply_filters df month_arg (Some w) = Inl (ValueError msg)"
    if h: "''month'' \<in> set (columns df) \<and>
        w \<noteq> [] \<and> lower (strip w) \<notin> set days \<and> lower (strip w) \<noteq> ''all''"
  proof -
    from h have "(\<exists>v. filter_month df month_arg = Inr v) \<or>
      filter_month df month_arg = Inl (ValueError ''Invalid month'')"
      by (intro filter_month_outcome) simp
    then show ?thesis
    proof
      assume "\<exists>v. filter_month df month_arg = Inr v"
      then obtain v where "filter_month df month_arg = Inr v" ..
      with h not_all_unstripped [of w] show ?thesis
        by (simp add: apply_filters_def filter_day_invalid)
    next
      assume "filter_month df month_arg = Inl (ValueError ''Invalid month'')"
      then show ?thesis by (simp add: apply_filters_def)
    qed
  qed
  show "apply_filters df (Some []) (Some []) = Inr df"
    by (simp add: apply_filters_def filter_month_none filter_day_none no_filter_def)
  show "load_data_filtered env city month_arg day_arg = apply_filters df month_arg day_arg"
    if "load_data env city = Inr df"
    using that by (rule load_data_filtered_eq)
qed

lemma december_invalid:
  "''December'' \<noteq> [] \<and> lower (strip ''December'') \<notin> set months \<and>
     lower (strip ''December'') \<noteq> ''all''"
  by (intro conjI; code_simp)

lemma funday_invalid:
  "''Funday'' \<noteq> [] \<and> lower (strip ''Funday'') \<notin> set days \<and>
     lower (strip ''Funday'') \<noteq> ''all''"
  by (intro conjI; code_simp)

lemma example_frame_june:
  "filter_month example_frame (Some ''June'') =
     Inr (example_frame\<lparr>rows := drop 2 (rows example_frame)\<rparr>)"
  by code_simp

lemma example_frame_month: "''month'' \<in> set (columns example_frame)"
  by code_simp

lemma load_example: "load_data example_env ''Washington'' = Inr example_frame"
  by code_simp

text \<open>
  The theorem on the Washington example: "December" and "Funday" are refused.
\<close>

theorem invalid_filter_values_witness:
  "load_data example_env ''Washington'' = Inr example_frame \<and>
   load_data_filtered example_env ''Washington'' (Some ''December'') (Some ''Monday'') =
     Inl (ValueError ''Invalid month'') \<and>
   load_data_filtered example_env ''Washington'' (Some ''June'') (Some ''Funday'') =
     Inl (ValueError ''Invalid day'') \<and>
   (\<exists>msg. apply_filters example_frame (Some ''June'') (Some ''Funday'') =
      Inl (ValueError msg))"
proof -
  note a = invalid_filter_values [of "''December''" example_frame "Some ''Monday''"
      "Some ''June''" "example_frame\<lparr>rows := drop 2 (rows example_frame)\<rparr>" "''Funday''"
      example_env "''Washington''"]
  have 1: "apply_filters example_frame (Some ''December'') (Some ''Monday'') =
      Inl (ValueError ''Invalid month'')"
    using a december_invalid by blast
  have 2: "apply_filters example_frame (Some ''June'') (Some ''Funday'') =
      Inl (ValueError ''Invalid day'')"
    using a funday_invalid example_frame_june by blast
  have 3: "\<exists>msg. apply_filters example_frame (Some ''June'') (Some ''Funday'') =
      Inl (ValueError msg)"
    using a funday_invalid example_frame_month by blast
  have 4: "load_data_filtered example_env ''Washington'' (Some ''December'') (Some ''Monday'')
      = apply_filters example_frame (Some ''December'') (Some ''Monday'')"
    using load_example by (rule load_data_filtered_eq)
  have 5: "load_data_filtered example_env ''Washington'' (Some ''June'') (Some ''Funday'')
      = apply_filters example_frame (Some ''June'') (Some ''Funday'')"
    using load_example by (rule load_data_filtered_eq)
  show ?thesis using 1 2 3 4 5 load_example by simp
qed

text \<open>
  C4 as stated fails: the empty string is none of the six names and is not "all", and
  filtering with it returns the whole frame.
\<close>

theorem empty_month_is_no_filter:
  "lower (strip []) \<notin> set months \<and> lower (strip []) \<noteq> ''all'' \<and>
   load_data_filtered example_env ''Washington'' (Some []) None = Inr example_frame"
  by (intro conjI; code_simp)

lemma apply_filters_rows:
  assumes "''month'' \<in> set (columns df)" and "''day_of_week'' \<in> set (columns df)"
    and "list_index months (lower (strip m)) = Some i"
    and "lower (strip w) \<in> set days"
  shows "i < 6 \<and> months ! i = lower (strip m) \<and>
    apply_filters df (Some m) (Some w) =
      Inr (df\<lparr>rows := filter (\<lambda>r. month r = int i + 1 \<and>
                                 lower (day_of_week r) = lower (strip w)) (rows df)\<rparr>) \<and>
    (no_filter b \<longrightarrow>
       apply_filters df (Some m) b =
         Inr (df\<lparr>rows := filter (\<lambda>r. month r = int i + 1) (rows df)\<rparr>)) \<and>
    (no_filter a \<longrightarrow>
       apply_filters df a (Some w) =
         Inr (df\<lparr>rows := filter (\<lambda>r. lower (day_of_week r) = lower (strip w)) (rows df)\<rparr>))"
proof (intro conjI impI)
  have len: "length months = 6" by (simp add: months_def)
  from list_index_nth [OF assms(3)] len show "i < 6" "months ! i = lower (strip m)"
    by simp_all
  have fm: "filter_month df (Some m) =
      Inr (df\<lparr>rows := filter (\<lambda>r. month r = int i + 1) (rows df)\<rparr>)"
    using filter_month_valid [OF assms(3), of df] assms(1) by simp
  have fd: "filter_day v (Some w) =
      Inr (v\<lparr>rows := filter (\<lambda>r. lower (day_of_week r) = lower (strip w)) (rows v)\<rparr>)"
    if "columns v = columns df" for v
    using filter_day_valid [OF assms(4), of v] assms(2) that by simp
  show "apply_filters df (Some m) (Some w) =
      Inr (df\<lparr>rows := filter (\<lambda>r. month r = int i + 1 \<and>
                                 lower (day_of_week r) = lower (strip w)) (rows df)\<rparr>)"
    by (simp add: apply_filters_def fm fd conj_commute)
  show "apply_filters df (Some m) b =
         Inr (df\<lparr>rows := filter (\<lambda>r. month r = int i + 1) (rows df)\<rparr>)"
    if "no_filter b"
    using that by (simp add: apply_filters_def fm filter_day_none)
  show "apply_filters df a (Some w) =
         Inr (df\<lparr>rows := filter (\<lambda>r. lower (day_of_week r) = lower (strip w)) (rows df)\<rparr>)"
    if "no_filter a"
    using that by (simp add: apply_filters_def filter_month_none fd)
qed

lemma filter_month_Inr:
  assumes "filter_month df a = Inr df1"
  shows "\<exists>P. df1 = df\<lparr>rows := filter P (rows df)\<rparr> \<and>
     (\<forall>v. columns v = columns df \<longrightarrow> filter_month v a = Inr (v\<lparr>rows := filter P (rows v)\<rparr>))"
proof (cases "no_filter a")
  case True
  with assms have "df1 = df\<lparr>rows := filter (\<lambda>_. True) (rows df)\<rparr>"
    by (simp add: filter_month_none)
  moreover have "\<forall>v. filter_month v a = Inr (v\<lparr>rows := filter (\<lambda>_. True) (rows v)\<rparr>)"
    using True by (simp add: filter_month_none)
  ultimately show ?thesis by blast
next
  case False
  then obtain m where a: "a = Some m" and m: "m \<noteq> []" "lower m \<noteq> ''all''"
    by (cases a) (auto simp: no_filter_def)
  have mem: "lower (strip m) \<in> set months"
  proof (rule ccontr)
    assume "lower (strip m) \<notin> set months"
    with m a assms show False by (simp add: filter_month_invalid)
  qed
  then obtain i where i: "list_index months (lower (strip m)) = Some i"
    using list_index_Some_iff [of months "lower (strip m)"] by blast
  have c: "''month'' \<in> set (columns df)"
  proof (rule ccontr)
    assume "''month'' \<notin> set (columns df)"
    with filter_month_valid [OF i, of df] a assms show False by simp
  qed
  let ?P = "\<lambda>r. month r = int i + 1"
  have "df1 = df\<lparr>rows := filter ?P (rows df)\<rparr>"
    using filter_month_valid [OF i, of df] a assms c by simp
  moreover have "filter_month v a = Inr (v\<lparr>rows := filter ?P (rows v)\<rparr>)"
    if "columns v = columns df" for v
    using filter_month_valid [OF i, of v] a c that by simp
  ultimately show ?thesis by blast
qed

lemma filter_day_Inr:
  assumes "filter_day df a = Inr df1"
  shows "\<exists>P. df1 = df\<lparr>rows := filter P (rows df)\<rparr> \<and>
     (\<forall>v. columns v = columns df \<longrightarrow> filter_day v a = Inr (v\<lparr>rows := filter P (rows v)\<rparr>))"
proof (cases "no_filter a")
  case True
  with assms have "df1 = df\<lparr>rows := filter (\<lambda>_. True) (rows df)\<rparr>"
    by (simp add: filter_day_none)
  moreover have "\<forall>v. filter_day v a = Inr (v\<lparr>rows := filter (\<lambda>_. True) (rows v)\<rparr>)"
    using True by (simp add: filter_day_none)
  ultimately show ?thesis by blast
next
  case False
  then obtain w where a: "a = Some w" and w: "w \<noteq> []" "lower w \<noteq> ''all''"
    by (cases a) (auto simp: no_filter_def)
  have mem: "lower (strip w) \<in> set days"
  proof (rule ccontr)
    assume "lower (strip w) \<notin> set days"
    with w a assms show False by (simp add: filter_day_invalid)
  qed
  have c: "''day_of_week'' \<in> set (columns df)"
  proof (rule ccontr)
    assume "''day_of_week'' \<notin> set (columns df)"
    with filter_day_valid [OF mem, of df] a assms show False by simp
  qed
  let ?P = "\<lambda>r. lower (day_of_week r) = lower (strip w)"
  have "df1 = df\<lparr>rows := filter ?P (rows df)\<rparr>"
    using filter_day_valid [OF mem, of df] a assms c by simp
  moreover have "filter_day v a = Inr (v\<lparr>rows := filter ?P (rows v)\<rparr>)"
    if "columns v = columns df" for v
    using filter_day_valid [OF mem, of v] a c that by simp
  ultimately show ?thesis by blast
qed

text \<open>
  C6. A view that the filters returned is returned unchanged when the same month and day
  arguments are applied to it again.
\<close>

theorem filtering_idempotent:
  "apply_filters df month_arg day_arg = Inr v \<longrightarrow> apply_filters v month_arg day_arg = Inr v"
proof
  assume "apply_filters df month_arg day_arg = Inr v"
  then obtain df1 where 1: "filter_month df month_arg = Inr df1"
    and 2: "filter_day df1 day_arg = Inr v"
    by (cases "filter_month df month_arg") (auto simp: apply_filters_def)
  from filter_month_Inr [OF 1] obtain P where P: "df1 = df\<lparr>rows := filter P (rows df)\<rparr>"
    "\<And>u. columns u = columns df \<Longrightarrow> filter_month u month_arg = Inr (u\<lparr>rows := filter P (rows u)\<rparr>)"
    by blast
  from filter_day_Inr [OF 2] obtain Q where Q: "v = df1\<lparr>rows := filter Q (rows df1)\<rparr>"
    "\<And>u. columns u = columns df1 \<Longrightarrow> filter_day u day_arg = Inr (u\<lparr>rows := filter Q (rows u)\<rparr>)"
    by blast
  have cols: "columns v = columns df" "columns v = columns df1" using P(1) Q(1) by simp_all
  have rv: "rows v = filter Q (filter P (rows df))" using P(1) Q(1) by simp
  have "filter P (rows v) = rows v" unfolding rv filter_id_conv by simp
  then have m: "filter_month v month_arg = Inr v" using P(2) [OF cols(1)] by simp
  have "filter Q (rows v) = rows v" unfolding rv filter_id_conv by simp
  then have d: "filter_day v day_arg = Inr v" using Q(2) [OF cols(2)] by simp
  from m d show "apply_filters v month_arg day_arg = Inr v" by (simp add: apply_filters_def)
qed

lemma january_tuesday_once:
  "apply_filters three_view (Some ''January'') (Some ''Tuesday'') =
     Inr (three_view\<lparr>rows := drop 2 (rows three_view)\<rparr>)"
  by code_simp

text \<open>
  The theorem on the three rides, filtered by January and Tuesday: the third ride is left,
  and filtering it again gives the same view.
\<close>

theorem filtering_idempotent_witness:
  "apply_filters three_view (Some ''January'') (Some ''Tuesday'') =
     Inr (three_view\<lparr>rows := drop 2 (rows three_view)\<rparr>) \<and>
   apply_filters (three_view\<lparr>rows := drop 2 (rows three_view)\<rparr>) (Some ''January'')
     (Some ''Tuesday'') = Inr (three_view\<lparr>rows := drop 2 (rows three_view)\<rparr>)"
  using filtering_idempotent [of three_view "Some ''January''" "Some ''Tuesday''"
      "three_view\<lparr>rows := drop 2 (rows three_view)\<rparr>"] january_tuesday_once
  by simp

lemma padded_all:
  assumes "lower (strip m) = ''all''" and "strip m \<noteq> m"
  shows "m \<noteq> [] \<and> lower m \<noteq> ''all'' \<and> lower (strip m) \<notin> set months \<and>
         lower (strip m) \<notin> set days"
proof (intro conjI)
  show "m \<noteq> []" using assms(2) by auto
  show "lower m \<noteq> ''all''" using lower_all_strip [of m] assms(2) by auto
  show "lower (strip m) \<notin> set months" using assms(1) all_not_a_name(1) by simp
  show "lower (strip m) \<notin> set days" using assms(1) all_not_a_name(2) by simp
qed

text \<open>
  C10. An argument that is "all" (in any letter case) with white space before or after it is
  refused with the error of an invalid value, for the month and (once the month block has
  passed) for the day, while "all" itself sets no filter and a month or day name with white
  space around it is accepted.
\<close>

theorem padded_all_rejected:
  "(lower (strip m) = ''all'' \<and> strip m \<noteq> m \<longrightarrow>
      apply_filters df (Some m) day_arg = Inl (ValueError ''Invalid month'')) \<and>
   (filter_month df month_arg = Inr df' \<and> lower (strip w) = ''all'' \<and> strip w \<noteq> w \<longrightarrow>
      apply_filters df month_arg (Some w) = Inl (ValueError ''Invalid day'')) \<and>
   (lower a = ''all'' \<longrightarrow> apply_filters df (Some a) (Some a) = Inr df) \<and>
   (''month'' \<in> set (columns df) \<and> lower (strip m') \<in> set months \<longrightarrow>
      (\<exists>v. apply_filters df (Some m') None = Inr v)) \<and>
   (''day_of_week'' \<in> set (columns df) \<and> lower (strip w') \<in> set days \<longrightarrow>
      (\<exists>v. apply_filters df None (Some w') = Inr v))"
proof (intro conjI impI)
  show "apply_filters df (Some m) day_arg = Inl (ValueError ''Invalid month'')"
    if "lower (strip m) = ''all'' \<and> strip m \<noteq> m"
    using padded_all [of m] that by (simp add: apply_filters_def filter_month_invalid)
  show "apply_filters df month_arg (Some w) = Inl (ValueError ''Invalid day'')"
    if "filter_month df month_arg = Inr df' \<and> lower (strip w) = ''all'' \<and> strip w \<noteq> w"
    using padded_all [of w] that by (simp add: apply_filters_def filter_day_invalid)
  show "apply_filters df (Some a) (Some a) = Inr df" if "lower a = ''all''"
    using that by (simp add: apply_filters_def filter_month_none filter_day_none no_filter_def)
  show "\<exists>v. apply_filters df (Some m') None = Inr v"
    if h: "''month'' \<in> set (columns df) \<and> lower (strip m') \<in> set months"
  proof -
    from h obtain i where "list_index months (lower (strip m')) = Some i"
      using list_index_Some_iff [of months "lower (strip m')"] by blast
    from filter_month_valid [OF this, of df] h show ?thesis
      by (simp add: apply_filters_def filter_day_none no_filter_def)
  qed
  show "\<exists>v. apply_filters df None (Some w') = Inr v"
    if h: "''day_of_week'' \<in> set (columns df) \<and> lower (strip w') \<in> set days"
    using filter_day_valid [of w' df] h
    by (simp add: apply_filters_def filter_month_none no_filter_def)
qed

lemma padded_examples:
  "lower (strip '' all '') = ''all'' \<and> strip '' all '' \<noteq> '' all ''"
  "filter_month three_view None = Inr three_view"
  "lower ''all'' = ''all''"
  "''month'' \<in> set (columns three_view) \<and> lower (strip '' January '') \<in> set months"
  "''day_of_week'' \<in> set (columns three_view) \<and> lower (strip '' Monday '') \<in> set days"
  by ((intro conjI)?; code_simp)+

text \<open>
  The theorem at " all ", "all", " January " and " Monday ".
\<close>

theorem padded_all_rejected_witness:
  "apply_filters three_view (Some '' all '') None = Inl (ValueError ''Invalid month'') \<and>
   apply_filters three_view None (Some '' all '') = Inl (ValueError ''Invalid day'') \<and>
   apply_filters three_view (Some ''all'') (Some ''all'') = Inr three_view \<and>
   (\<exists>v. apply_filters three_view (Some '' January '') None = Inr v) \<and>
   (\<exists>v. apply_filters three_view None (Some '' Monday '') = Inr v)"
  using padded_all_rejected [of "'' all ''" three_view None None three_view "'' all ''"
      "''all''" "'' January ''" "'' Monday ''"] padded_examples
  by blast

lemma add_column_set: "set (add_column name cols) = insert name (set cols)"
  by (auto simp: add_column_def)

lemma load_data_columns:
  assumes "load_data env city = Inr df"
  shows "''month'' \<in> set (columns df) \<and> ''day_of_week'' \<in> set (columns df) \<and>
         ''hour'' \<in> set (columns df)"
proof -
  from assms obtain cols rs where
    "df = \<lparr>columns = add_column ''hour'' (add_column ''day_of_week'' (add_column ''month'' cols)),
          rows = rs\<rparr>"
    by (auto simp: load_data_def split: option.splits if_splits)
  then have "set (columns df) = insert ''hour'' (insert ''day_of_week'' (insert ''month'' (set cols)))"
    by (simp only: dataframe.simps add_column_set)
  then show ?thesis by (simp only: insert_iff simp_thms)
qed

text \<open>
  C5. For a frame \<open>df\<close> that \<open>load_data\<close> returns, a month argument whose trimmed, lower-case
  form is the name at position \<open>i\<close> (from 0) of january..june and a day argument whose
  trimmed, lower-case form is a day name: \<open>load_data_filtered\<close> returns the frame with
  exactly the rows, in their order, whose \<open>month\<close> is \<open>i + 1\<close> and whose \<open>day_of_week\<close> in
  lower case is that day name; with only one of the two arguments set, the rows that
  satisfy that one condition.
\<close>

theorem filtered_view_rows:
  assumes "load_data env city = Inr df"
    and "list_index months (lower (strip m)) = Some i"
    and "lower (strip w) \<in> set days"
  shows "i < 6 \<and> months ! i = lower (strip m) \<and>
    load_data_filtered env city (Some m) (Some w) =
      Inr (df\<lparr>rows := filter (\<lambda>r. month r = int i + 1 \<and>
                                 lower (day_of_week r) = lower (strip w)) (rows df)\<rparr>) \<and>
    (no_filter b \<longrightarrow>
       load_data_filtered env city (Some m) b =
         Inr (df\<lparr>rows := filter (\<lambda>r. month r = int i + 1) (rows df)\<rparr>)) \<and>
    (no_filter a \<longrightarrow>
       load_data_filtered env city a (Some w) =
         Inr (df\<lparr>rows := filter (\<lambda>r. lower (day_of_week r) = lower (strip w)) (rows df)\<rparr>))"
proof -
  from load_data_columns [OF assms(1)]
  have c: "''month'' \<in> set (columns df)" "''day_of_week'' \<in> set (columns df)" by simp_all
  have "load_data_filtered env city x y = apply_filters df x y" for x y
    using assms(1) by (rule load_data_filtered_eq)
  with apply_filters_rows [OF c assms(2,3), of b a] show ?thesis
    by presburger
qed

lemma january_tuesday:
  "list_index months (lower (strip '' January '')) = Some 0"
  "lower (strip ''TUESDAY'') \<in> set days"
  "no_filter (Some ''All'')"
  "no_filter None"
  by code_simp+

lemma example_frame_selections:
  "map (\<lambda>r. (month r, day_of_week r)) (rows example_frame) =
     [(1, ''Monday''), (1, ''Tuesday''), (6, ''Tuesday''), (6, ''Friday'')]"
  "filter (\<lambda>r. month r = int 0 + 1 \<and> lower (day_of_week r) = lower (strip ''TUESDAY''))
     (rows example_frame) = [rows example_frame ! 1]"
  "filter (\<lambda>r. month r = int 0 + 1) (rows example_frame) = take 2 (rows example_frame)"
  "filter (\<lambda>r. lower (day_of_week r) = lower (strip ''TUESDAY'')) (rows example_frame) =
     [rows example_frame ! 1, rows example_frame ! 2]"
  "months ! 0 = ''january''"
  "lower (strip '' January '') = ''january''"
  by code_simp+

text \<open>
  The theorem on the Washington example (rides on Monday and Tuesday in January, Tuesday
  and Friday in June): January and Tuesday leave the second ride, January alone the first
  two, Tuesday alone the second and third.
\<close>

theorem filtered_view_rows_witness:
  "load_data example_env ''Washington'' = Inr example_frame \<and>
   map (\<lambda>r. (month r, day_of_week r)) (rows example_frame) =
     [(1, ''Monday''), (1, ''Tuesday''), (6, ''Tuesday''), (6, ''Friday'')] \<and>
   months ! 0 = ''january'' \<and>
   load_data_filtered example_env ''Washington'' (Some '' January '') (Some ''TUESDAY'') =
     Inr (example_frame\<lparr>rows := [rows example_frame ! 1]\<rparr>) \<and>
   load_data_filtered example_env ''Washington'' (Some '' January '') (Some ''All'') =
     Inr (example_frame\<lparr>rows := take 2 (rows example_frame)\<rparr>) \<and>
   load_data_filtered example_env ''Washington'' None (Some ''TUESDAY'') =
     Inr (example_frame\<lparr>rows := [rows example_frame ! 1, rows example_frame ! 2]\<rparr>)"
  using filtered_view_rows [OF load_example january_tuesday(1,2), of "Some ''All''" None]
    january_tuesday(3,4) example_frame_selections load_example
  by simp

subsection \<open>Stations\<close>








subsection \<open>Demographic statistics\<close>

lemma then_print_lines:
  assumes "\<And>v l. l \<in> set (lines_of v) \<Longrightarrow> \<not> demographic_line l"
    and "\<And>l. l \<in> set (fst st) \<Longrightarrow> \<not> demographic_line l"
    and "l \<in> set (fst (then_print f lines_of st))"
  shows "\<not> demographic_line l"
proof -
  obtain out err df where st: "st = (out, err, df)" by (cases st)
  show ?thesis
  proof (cases err)
    case (Some e)
    with assms(2,3) st show ?thesis by (simp add: then_print_def)
  next
    case None
    obtain res df' where f: "f df = (res, df')" by (cases "f df")
    show ?thesis
    proof (cases res)
      case (Inl e)
      with assms(2,3) st None f show ?thesis by (simp add: then_print_def)
    next
      case (Inr v)
      with assms(3) st None f have "l \<in> set out \<or> l \<in> set (lines_of v)"
        by (simp add: then_print_def)
      with assms(1,2) st show ?thesis by auto
    qed
  qed
qed

lemma then_print_clean:
  assumes "\<forall>l\<in>set (fst st). \<not> demographic_line l"
    and "\<forall>v. \<forall>l\<in>set (lines_of v). \<not> demographic_line l"
  shows "\<forall>l\<in>set (fst (then_print f lines_of st)). \<not> demographic_line l"
  using assms then_print_lines [of lines_of st _ f] by blast

lemma common_statistics_lines:
  "\<forall>l\<in>set (fst (common_statistics env df)). \<not> demographic_line l"
  unfolding common_statistics_def
  by (intro then_print_clean) (auto simp: demographic_line_def)

lemma then_print_frame:
  assumes "\<And>d. P d \<Longrightarrow> P (snd (f d))" and "P (snd (snd st))"
  shows "P (snd (snd (then_print f lines_of st)))"
proof -
  obtain out err df where st: "st = (out, err, df)" by (cases st)
  obtain res df' where f: "f df = (res, df')" by (cases "f df")
  from assms(1) [of df] assms(2) st f have "P df'" by simp
  with assms(2) st f show ?thesis
    by (cases err; cases res) (simp_all add: then_print_def)
qed

lemma gender_is_not_trip: "''Gender'' \<noteq> ''Trip''"
  by code_simp

lemma most_common_stations_columns:
  "set (columns (snd (most_common_stations df))) \<subseteq> insert ''Trip'' (set (columns df))"
proof (cases "''Start Station'' \<in> set (columns df) \<and> ''End Station'' \<in> set (columns df) \<and>
    rows df \<noteq> []")
  case True
  then obtain s e t where "most_common_stations df = (Inr (s, e, t), with_trip df)"
    using most_common_stations_eq [of df] by blast
  then show ?thesis by (auto simp: with_trip_def add_column_def)
next
  case False
  from most_common_stations_fail [OF this] show ?thesis by auto
qed

lemma common_statistics_keeps_no_gender:
  assumes "''Gender'' \<notin> set (columns df)"
  shows "''Gender'' \<notin> set (columns (snd (snd (common_statistics env df))))"
proof -
  have s: "''Gender'' \<notin> set (columns (snd (most_common_stations d)))"
    if "''Gender'' \<notin> set (columns d)" for d
    using most_common_stations_columns [of d] that gender_is_not_trip by blast
  show ?thesis
    unfolding common_statistics_def
    by (intro then_print_frame [where P = "\<lambda>d. ''Gender'' \<notin> set (columns d)"])
      (simp_all only: s assms snd_conv most_common_month_def most_common_day_def
        most_common_hour_def total_travel_time_def average_travel_time_def
        user_types_count_def not_False_eq_True)
qed

lemma demographic_statistics_no_gender:
  assumes "fst (snd st) = None" and "''Gender'' \<notin> set (columns (snd (snd st)))"
  shows "fst (snd (demographic_statistics st)) = Some (KeyError ''Gender'')"
proof -
  obtain out err df where st: "st = (out, err, df)" by (cases st)
  with assms have "then_print gender_count (\<lambda>g. [Gender_line g]) st =
      (out, Some (KeyError ''Gender''), df)"
    by (simp add: then_print_def gender_count_def bind_getitem)
  then show ?thesis by (simp add: demographic_statistics_def then_print_def)
qed

text \<open>
  C8 (as the code has it). On a frame without the column \<open>Gender\<close>, \<open>gender_count\<close> raises
  \<open>KeyError\<close>, and so does \<open>birth_year_stats\<close> without \<open>Birth Year\<close>. The statistics part of
  \<open>main\<close> decides by the name of the city, not by the columns of the frame. For a city other
  than Chicago and New York City it is the common part alone: it calls neither of the two
  and prints none of their lines. For those two cities it goes on with the demographic part
  whatever the frame holds: on a frame without \<open>Gender\<close>, once the common part has ended
  without an exception, the run ends with the \<open>KeyError\<close> of \<open>gender_count\<close>.
\<close>

theorem demographics_only_where_supported:
  "(''Gender'' \<notin> set (columns df) \<longrightarrow> fst (gender_count df) = Inl (KeyError ''Gender'')) \<and>
   (''Birth Year'' \<notin> set (columns df) \<longrightarrow>
      fst (birth_year_stats df) = Inl (KeyError ''Birth Year'')) \<and>
   (city \<notin> set [''chicago'', ''new york city''] \<longrightarrow>
      main_statistics env city df = common_statistics env df \<and>
      (\<forall>l\<in>set (fst (main_statistics env city df)). \<not> demographic_line l)) \<and>
   (city \<in> set [''chicago'', ''new york city''] \<longrightarrow>
      main_statistics env city df = demographic_statistics (common_statistics env df) \<and>
      (''Gender'' \<notin> set (columns df) \<and> fst (snd (common_statistics env df)) = None \<longrightarrow>
         fst (snd (main_statistics env city df)) = Some (KeyError ''Gender'')))"
proof (intro conjI impI)
  show "fst (gender_count df) = Inl (KeyError ''Gender'')"
    if "''Gender'' \<notin> set (columns df)"
    using that by (simp add: gender_count_def bind_getitem)
  show "fst (birth_year_stats df) = Inl (KeyError ''Birth Year'')"
    if "''Birth Year'' \<notin> set (columns df)"
    using that by (simp add: birth_year_stats_def bind_getitem)
  show eq: "main_statistics env city df = common_statistics env df"
    if "city \<notin> set [''chicago'', ''new york city'']"
    using that by (simp only: main_statistics_def Let_def if_False)
  show "\<forall>l\<in>set (fst (main_statistics env city df)). \<not> demographic_line l"
    if "city \<notin> set [''chicago'', ''new york city'']"
    using common_statistics_lines [of env df] eq [OF that] by simp
  show d: "main_statistics env city df = demographic_statistics (common_statistics env df)"
    if "city \<in> set [''chicago'', ''new york city'']"
    using that by (simp only: main_statistics_def Let_def if_True)
  show "fst (snd (main_statistics env city df)) = Some (KeyError ''Gender'')"
    if "city \<in> set [''chicago'', ''new york city'']"
      and "''Gender'' \<notin> set (columns df) \<and> fst (snd (common_statistics env df)) = None"
  proof -
    from that(2) have "''Gender'' \<notin> set (columns (snd (snd (common_statistics env df))))"
      by (intro common_statistics_keeps_no_gender) simp
    with that(2) have "fst (snd (demographic_statistics (common_statistics env df))) =
        Some (KeyError ''Gender'')"
      by (intro demographic_statistics_no_gender) simp_all
    then show ?thesis by (simp only: d [OF that(1)])
  qed
qed

lemma washington_examples:
  "''Gender'' \<notin> set (columns example_frame)"
  "''Birth Year'' \<notin> set (columns example_frame)"
  "''washington'' \<notin> set [''chicago'', ''new york city'']"
  "''chicago'' \<in> set [''chicago'', ''new york city'']"
  "''new york city'' \<in> set [''chicago'', ''new york city'']"
  by code_simp+

lemma washington_run:
  "fst (common_statistics example_env example_frame) =
     [Month_line 1, Day_line ''Tuesday'', Hour_line 8, Start_station_line ''A'',
      End_station_line ''X'', Trip_line ''A to X'', Total_line 1441,
      Average_line (Num (1441 / 4)),
      User_types_line [(''Subscriber'', 2), (''Customer'', 2)]]"
  "fst (snd (common_statistics example_env example_frame)) = None"
  by code_simp+

lemma chicago_run:
  "fst (demographic_statistics (common_statistics example_env tie_view)) =
     [Month_line 1, Day_line ''Monday'', Hour_line 3, Start_station_line ''P'',
      End_station_line ''Q'', Trip_line ''P to Q'', Total_line 180, Average_line (Num 90),
      User_types_line [(''Subscriber'', 1), (''Customer'', 1)],
      Gender_line [(''Male'', 1), (''Female'', 1)], Earliest_line 1985, Recent_line 1990,
      Common_year_line 1985]"
  by code_simp

text \<open>
  The theorem at the Washington example frame, which has neither column: the run for
  Washington prints the nine common lines and ends without an exception, and the run on the
  same frame under the name New York City ends with the \<open>KeyError\<close>. A frame with both
  columns, under the name Chicago, prints the demographic lines after the common ones.
\<close>

theorem demographics_only_where_supported_witness:
  "fst (gender_count example_frame) = Inl (KeyError ''Gender'') \<and>
   fst (birth_year_stats example_frame) = Inl (KeyError ''Birth Year'') \<and>
   fst (main_statistics example_env ''washington'' example_frame) =
     [Month_line 1, Day_line ''Tuesday'', Hour_line 8, Start_station_line ''A'',
      End_station_line ''X'', Trip_line ''A to X'', Total_line 1441,
      Average_line (Num (1441 / 4)),
      User_types_line [(''Subscriber'', 2), (''Customer'', 2)]] \<and>
   fst (snd (main_statistics example_env ''washington'' example_frame)) = None \<and>
   fst (main_statistics example_env ''chicago'' tie_view) =
     [Month_line 1, Day_line ''Monday'', Hour_line 3, Start_station_line ''P'',
      End_station_line ''Q'', Trip_line ''P to Q'', Total_line 180, Average_line (Num 90),
      User_types_line [(''Subscriber'', 1), (''Customer'', 1)],
      Gender_line [(''Male'', 1), (''Female'', 1)], Earliest_line 1985, Recent_line 1990,
      Common_year_line 1985] \<and>
   fst (snd (main_statistics example_env ''new york city'' example_frame)) =
     Some (KeyError ''Gender'')"
proof -
  note w = demographics_only_where_supported [of example_frame "''washington''" example_env]
  note c = demographics_only_where_supported [of tie_view "''chicago''" example_env]
  note n = demographics_only_where_supported [of example_frame "''new york city''" example_env]
  have 1: "fst (gender_count example_frame) = Inl (KeyError ''Gender'')"
    using w washington_examples(1) by blast
  have 2: "fst (birth_year_stats example_frame) = Inl (KeyError ''Birth Year'')"
    using w washington_examples(2) by blast
  have 3: "main_statistics example_env ''washington'' example_frame =
      common_statistics example_env example_frame"
    using w washington_examples(3) by blast
  have 4: "main_statistics example_env ''chicago'' tie_view =
      demographic_statistics (common_statistics example_env tie_view)"
    using c washington_examples(4) by blast
  have 5: "fst (snd (main_statistics example_env ''new york city'' example_frame)) =
      Some (KeyError ''Gender'')"
    using n washington_examples(1,5) washington_run(2) by blast
  show ?thesis by (simp only: 1 2 3 4 5 washington_run chicago_run simp_thms)
qed

text \<open>
  C8 as stated fails: where the file \<open>chicago.csv\<close> has no column \<open>Gender\<close>, the frame loads,
  \<open>main\<close> prints the nine common lines and then calls \<open>gender_count\<close>, which raises.
\<close>

theorem chicago_without_gender:
  "load_data renamed_env ''chicago'' = Inr example_frame \<and>
   ''Gender'' \<notin> set (columns example_frame) \<and>
   fst (main_statistics renamed_env ''chicago'' example_frame) =
     [Month_line 1, Day_line ''Tuesday'', Hour_line 8, Start_station_line ''A'',
      End_station_line ''X'', Trip_line ''A to X'', Total_line 1441,
      Average_line (Num (1441 / 4)),
      User_types_line [(''Subscriber'', 2), (''Customer'', 2)]] \<and>
   fst (snd (main_statistics renamed_env ''chicago'' example_frame)) =
     Some (KeyError ''Gender'')"
  by (intro conjI; code_simp)

subsection \<open>Loading\<close>






end
